theory Spec2Isabelle
  imports Main "HOL-Library.AList" "HOL-Library.Sublist"
begin

section \<open>Python values shared by the modules\<close>

text \<open>
  Exceptions are values. Each constructor stands for the Python class of the same
  name; \<open>ValueError\<close> carries its message, \<open>ProcessError\<close> stands for whatever the
  Docker client raises when the external signing container fails.
\<close>

datatype py_exception =
    IndexError
  | TypeError
  | UnboundLocalError
  | AssertionError
  | FileNotFoundError
  | FileExistsError
  | ValueError string
  | PydanticCustomError
  | ValidationError
  | ProcessError string

fun exception_name :: "py_exception \<Rightarrow> string" where
  "exception_name IndexError = ''IndexError''"
| "exception_name TypeError = ''TypeError''"
| "exception_name UnboundLocalError = ''UnboundLocalError''"
| "exception_name AssertionError = ''AssertionError''"
| "exception_name FileNotFoundError = ''FileNotFoundError''"
| "exception_name FileExistsError = ''FileExistsError''"
| "exception_name (ValueError m) = ''ValueError''"
| "exception_name PydanticCustomError = ''PydanticCustomError''"
| "exception_name ValidationError = ''ValidationError''"
| "exception_name (ProcessError m) = ''ProcessError''"

text \<open>
  An \<open>IPv4Address\<close> is its integer value (Python's \<open>int(addr)\<close>, below \<open>2 ^ 32\<close>);
  addresses compare and sort as these integers. IPv6 networks are outside the model.
\<close>

type_synonym IPv4Address = nat

text \<open>\<open>str(n)\<close> for a non-negative integer: its decimal digits.\<close>

definition digit_char :: "nat \<Rightarrow> char" where
  "digit_char d = ''0123456789'' ! d"

function str_nat :: "nat \<Rightarrow> string" where
  "str_nat n = (if n < 10 then [digit_char n] else str_nat (n div 10) @ [digit_char (n mod 10)])"
  by pat_completeness auto
termination
  by (relation "measure id") auto

declare str_nat.simps [simp del]

text \<open>\<open>str(addr)\<close> for an \<open>IPv4Address\<close>: the dotted quad.\<close>

definition str_ip :: "IPv4Address \<Rightarrow> string" where
  "str_ip a =
     str_nat (a div 16777216 mod 256) @ ''.'' @ str_nat (a div 65536 mod 256) @ ''.'' @
     str_nat (a div 256 mod 256) @ ''.'' @ str_nat (a mod 256)"

section \<open>config.py: the parts of the configuration tree that the composer sets\<close>

record RoutableIPPort =
  rip_ip :: IPv4Address
  rip_port :: nat

text \<open>\<open>RoutableIPPort.__str__\<close>: \<open>f"{str(self.ip)}:{self.port}"\<close>.\<close>

definition str_RoutableIPPort :: "RoutableIPPort \<Rightarrow> string" where
  "str_RoutableIPPort r = str_ip (rip_ip r) @ '':'' @ str_nat (rip_port r)"

datatype port_match = AnyPort | PortNumber nat
datatype proto_match = tcp | icmp | udp | AnyProto
datatype host_match = AnyHost | HostAddress IPv4Address

record InOutboundItem =
  fw_port :: port_match
  fw_proto :: proto_match
  fw_host :: host_match
  fw_groups :: "string list option"
  fw_group :: "string option"
  fw_local_cidr :: "(IPv4Address \<times> nat) option"

text \<open>\<open>InOutboundItem(group=g)\<close>: every other field at its class default.\<close>

definition InOutboundItem_of_group :: "string \<Rightarrow> InOutboundItem" where
  "InOutboundItem_of_group g =
     \<lparr>fw_port = AnyPort, fw_proto = AnyProto, fw_host = AnyHost,
      fw_groups = None, fw_group = Some g, fw_local_cidr = None\<rparr>"

record Firewall =
  outbound :: "InOutboundItem list"
  inbound :: "InOutboundItem list"

record Pki =
  ca :: string
  cert :: string
  key :: string

record Lighthouse =
  lh_am_lighthouse :: bool

text \<open>
  \<open>StaticHostMap.contents\<close> is a \<open>dict[IPvAnyAddress, list[RoutableIPPort]]\<close>. A dict
  is an association list in insertion order; \<open>AList.update\<close> is Python's item
  assignment (an existing key keeps its place and takes the new value).
\<close>

type_synonym StaticHostMap = "(IPv4Address \<times> RoutableIPPort list) list"

record NebulaConfig =
  pki :: Pki
  static_host_map :: StaticHostMap
  lighthouse :: Lighthouse
  firewall :: Firewall

section \<open>entities.py: nodes and networks\<close>

datatype group_item = GroupLabel string | GroupRule InOutboundItem

record NebulaNode =
  name :: string
  ip :: "IPv4Address option"
  port :: nat
  am_lighthouse :: bool
  public :: "RoutableIPPort option"
  config :: "NebulaConfig option"
  groups :: "group_item list"

record NebulaNetwork =
  cert_authority :: string
  net_ip :: IPv4Address
  nodes :: "NebulaNode list"
  cidr :: nat

text \<open>
  \<open>NebulaNetwork.network\<close>: \<open>IPvAnyNetwork(str(self.ip) + f"/{self.cidr}")\<close>. The
  library builds a strict \<open>IPv4Network\<close>: a prefix length above 32 or an address
  with host bits set is refused. The block is the pair of network address and
  prefix length.
\<close>

definition network :: "NebulaNetwork \<Rightarrow> py_exception + (IPv4Address \<times> nat)" where
  "network self =
     (if cidr self \<le> 32 \<and> net_ip self mod 2 ^ (32 - cidr self) = 0
      then Inr (net_ip self, cidr self) else Inl PydanticCustomError)"

text \<open>
  \<open>IPv4Network.hosts()\<close> of the standard library: the addresses strictly between the
  network and the broadcast address; both addresses of a /31; the single address
  of a /32.
\<close>

definition hosts :: "IPv4Address \<times> nat \<Rightarrow> IPv4Address list" where
  "hosts nw =
     (case nw of (a, p) \<Rightarrow>
        if p = 32 then [a]
        else if p = 31 then [a, a + 1]
        else [a + 1 ..< a + 2 ^ (32 - p) - 1])"

text \<open>
  The second loop of \<open>model_post_init\<close>:
  \<open>for i, node in enumerate(filter(lambda x: x.ip is None, self.nodes)): node.ip = hosts[i]\<close>.
  The index counts the nodes without an address only; \<open>hosts[i]\<close> past the end of
  the list raises \<open>IndexError\<close>. Nodes are values here: the list is taken to hold
  separate node objects.
\<close>

fun assign_hosts :: "IPv4Address list \<Rightarrow> nat \<Rightarrow> NebulaNode list \<Rightarrow> py_exception + NebulaNode list" where
  "assign_hosts hs i [] = Inr []"
| "assign_hosts hs i (node # rest) =
     (case ip node of
        Some a \<Rightarrow>
          (case assign_hosts hs i rest of
             Inl e \<Rightarrow> Inl e
           | Inr rest' \<Rightarrow> Inr (node # rest'))
      | None \<Rightarrow>
          if i < length hs then
            (case assign_hosts hs (Suc i) rest of
               Inl e \<Rightarrow> Inl e
             | Inr rest' \<Rightarrow> Inr (node\<lparr>ip := Some (hs ! i)\<rparr> # rest'))
          else Inl IndexError)"

text \<open>
  The first loop: \<open>h = h - set([_ip])\<close> for every node with an address.
\<close>

definition remove_explicit :: "NebulaNode list \<Rightarrow> IPv4Address set \<Rightarrow> IPv4Address set" where
  "remove_explicit ns h = fold (\<lambda>node h. case ip node of Some a \<Rightarrow> h - {a} | None \<Rightarrow> h) ns h"

text \<open>The candidate pool: \<open>sorted(list(h))\<close> after the first loop.\<close>

definition candidate_hosts :: "NebulaNetwork \<Rightarrow> IPv4Address \<times> nat \<Rightarrow> IPv4Address list" where
  "candidate_hosts self nw = sorted_list_of_set (remove_explicit (nodes self) (set (hosts nw)))"

definition model_post_init :: "NebulaNetwork \<Rightarrow> py_exception + NebulaNetwork" where
  "model_post_init self0 =
     (let self = self0\<lparr>cert_authority := filter (\<lambda>c. c \<noteq> CHR '' '') (cert_authority self0)\<rparr>
      in case network self of
           Inl e \<Rightarrow> Inl e
         | Inr nw \<Rightarrow>
             (case assign_hosts (candidate_hosts self nw) 0 (nodes self) of
                Inl e \<Rightarrow> Inl e
              | Inr ns \<Rightarrow> Inr (self\<lparr>nodes := ns\<rparr>)))"

text \<open>\<open>NebulaNetwork.lighthouses\<close>.\<close>

definition lighthouses :: "NebulaNetwork \<Rightarrow> NebulaNode list" where
  "lighthouses self = filter am_lighthouse (nodes self)"

text \<open>
  Notions used to state the allocation properties: the nodes constructed without an
  address, and the addresses given explicitly (in node order).
\<close>

definition unset_nodes :: "NebulaNode list \<Rightarrow> NebulaNode list" where
  "unset_nodes ns = filter (\<lambda>n. ip n = None) ns"

definition explicit_ips :: "NebulaNode list \<Rightarrow> IPv4Address list" where
  "explicit_ips ns = List.map_filter ip ns"

text \<open>\<open>NebulaNode(name=n)\<close>: every other field at its class default.\<close>

definition NebulaNode_default :: "string \<Rightarrow> NebulaNode" where
  "NebulaNode_default n =
     \<lparr>name = n, ip = None, port = 4242, am_lighthouse = False, public = None,
      config = None, groups = []\<rparr>"

text \<open>
  The network of the end-to-end example: authority \<open>Test CA\<close>, block 10.100.100.0/24,
  node A at 10.100.100.5, lighthouse B at 10.100.100.6 with public endpoint
  203.0.113.1:4242, node C without an address.
\<close>

definition example_network :: NebulaNetwork where
  "example_network =
     \<lparr>cert_authority = ''Test CA'', net_ip = 174351360,
      nodes = [(NebulaNode_default ''A'')\<lparr>ip := Some 174351365\<rparr>,
               (NebulaNode_default ''B'')\<lparr>ip := Some 174351366, am_lighthouse := True,
                  public := Some \<lparr>rip_ip = 3405803777, rip_port = 4242\<rparr>\<rparr>,
               NebulaNode_default ''C''],
      cidr = 24\<rparr>"

text \<open>
  10.0.0.0/30 has the two host addresses 10.0.0.1 and 10.0.0.2. In \<open>small_network\<close>
  node A takes 10.0.0.1 explicitly and two nodes have no address; in
  \<open>shared_network\<close> two nodes take 10.0.0.1 explicitly.
\<close>

definition small_network :: NebulaNetwork where
  "small_network =
     \<lparr>cert_authority = ''CA'', net_ip = 167772160,
      nodes = [(NebulaNode_default ''A'')\<lparr>ip := Some 167772161\<rparr>,
               NebulaNode_default ''B'', NebulaNode_default ''C''],
      cidr = 30\<rparr>"

definition shared_network :: NebulaNetwork where
  "shared_network =
     \<lparr>cert_authority = ''CA'', net_ip = 167772160,
      nodes = [(NebulaNode_default ''A'')\<lparr>ip := Some 167772161\<rparr>,
               (NebulaNode_default ''B'')\<lparr>ip := Some 167772161\<rparr>],
      cidr = 30\<rparr>"

section \<open>The world outside the program\<close>

text \<open>
  A call of \<open>dclient.containers.run\<close>: the container name, the image, the command line
  and the entry point, and the working directory that is also mounted as the only
  volume.
\<close>

record docker_call =
  dc_name :: string
  dc_image :: string
  dc_command :: string
  dc_entrypoint :: string
  dc_working_dir :: string

text \<open>
  The file system is the set of paths for which \<open>os.path.exists\<close> holds. The list
  \<open>invocations\<close> is a trace kept for stating temporal properties: every container
  run, in order, with the paths that existed when it started.
\<close>

record world =
  paths :: "string set"
  invocations :: "(docker_call \<times> string set) list"

text \<open>
  What the program takes from its surroundings: \<open>os.path.abspath\<close> (which depends on
  the current directory), \<open>repr\<close> of a string, \<open>str.format\<close> with keyword arguments on
  a template that is only known at run time, the YAML text of a serialized
  configuration (\<open>yaml.dump(config.model_dump())\<close>), and the external signing process
  behind the Docker client, which, given a call and the existing paths, either
  returns normally or raises, and leaves a new set of paths either way.
\<close>

record environment =
  abspath :: "string \<Rightarrow> string"
  repr_str :: "string \<Rightarrow> string"
  str_format :: "string \<Rightarrow> (string \<times> string) list \<Rightarrow> py_exception + string"
  yaml_dump :: "NebulaConfig \<Rightarrow> string"
  signing_process :: "docker_call \<Rightarrow> string set \<Rightarrow> (py_exception + unit) \<times> string set"

text \<open>\<open>dclient.containers.run(...)\<close> with \<open>detach=False\<close>: blocks until the process ends.\<close>

definition containers_run :: "environment \<Rightarrow> docker_call \<Rightarrow> world \<Rightarrow> (py_exception + unit) \<times> world" where
  "containers_run env c w =
     (case signing_process env c (paths w) of
        (r, ps) \<Rightarrow> (r, \<lparr>paths = ps, invocations = invocations w @ [(c, paths w)]\<rparr>))"

text \<open>\<open>str\<close> of a list of strings: \<open>[repr(x), repr(y), ...]\<close>.\<close>

fun join_comma :: "string list \<Rightarrow> string" where
  "join_comma [] = []"
| "join_comma [x] = x"
| "join_comma (x # y # ys) = x @ '', '' @ join_comma (y # ys)"

definition str_list :: "environment \<Rightarrow> string list \<Rightarrow> string" where
  "str_list env xs = ''['' @ join_comma (map (repr_str env) xs) @ '']''"

section \<open>entities.py: the output layout (class \<open>_NebulaTempFiles\<close>)\<close>

text \<open>A node argument is either a name or a node object (\<open>type(node) is not str\<close>).\<close>

datatype node_ref = ByName string | ByNode NebulaNode

fun node_name :: "node_ref \<Rightarrow> string" where
  "node_name (ByName s) = s"
| "node_name (ByNode n) = name n"

text \<open>\<open>io.NODE_CONFIG_TEMPLATE.format(name=n)\<close> and \<open>io.NODE_COMPOSE_TEMPLATE.format(name=n)\<close>.\<close>

definition NODE_CONFIG_TEMPLATE :: "string \<Rightarrow> string" where
  "NODE_CONFIG_TEMPLATE n = n @ ''.yaml''"

definition NODE_COMPOSE_TEMPLATE :: "string \<Rightarrow> string" where
  "NODE_COMPOSE_TEMPLATE n = n @ ''_docker-compose.yml''"

definition dir :: "environment \<Rightarrow> NebulaNetwork \<Rightarrow> string" where
  "dir env self = abspath env (cert_authority self)"

definition ca_cert_prefix :: "environment \<Rightarrow> NebulaNetwork \<Rightarrow> string" where
  "ca_cert_prefix env self =
     dir env self @ ''/'' @ cert_authority self @ ''_'' @ str_ip (net_ip self) @ ''_'' @ str_nat (cidr self)"

definition node_cert_prefix :: "environment \<Rightarrow> NebulaNetwork \<Rightarrow> node_ref \<Rightarrow> string" where
  "node_cert_prefix env self node = dir env self @ ''/'' @ node_name node"

definition node_config :: "environment \<Rightarrow> NebulaNetwork \<Rightarrow> node_ref \<Rightarrow> string" where
  "node_config env self node = dir env self @ ''/'' @ NODE_CONFIG_TEMPLATE (node_name node)"

definition node_compose :: "environment \<Rightarrow> NebulaNetwork \<Rightarrow> node_ref \<Rightarrow> string" where
  "node_compose env self node = dir env self @ ''/'' @ NODE_COMPOSE_TEMPLATE (node_name node)"

section \<open>io.py: certificates on disk\<close>

definition NEBULA_IMAGE_VERSION :: string where
  "NEBULA_IMAGE_VERSION = ''latest''"

definition NEBULA_IMAGE :: string where
  "NEBULA_IMAGE = ''nebulaoss/nebula''"

definition nebula_image :: string where
  "nebula_image = NEBULA_IMAGE @ '':'' @ NEBULA_IMAGE_VERSION"

text \<open>
  \<open>os.path.dirname\<close>: the path up to its last slash, without trailing slashes unless
  it consists of slashes only.
\<close>

definition dirname :: "string \<Rightarrow> string" where
  "dirname p =
     (let head = rev (dropWhile (\<lambda>c. c \<noteq> CHR ''/'') (rev p))
      in if head \<noteq> [] \<and> \<not> list_all (\<lambda>c. c = CHR ''/'') head
         then rev (dropWhile (\<lambda>c. c = CHR ''/'') (rev head)) else head)"

text \<open>
  \<open>os.mkdir\<close>: refuses a path that exists, and a path whose parent directory does
  not exist. The world is the set of the paths that exist, directories included;
  it does not tell files from directories and has no permissions.
\<close>

definition mkdir :: "string \<Rightarrow> world \<Rightarrow> (py_exception + unit) \<times> world" where
  "mkdir p w =
     (if p \<in> paths w then (Inl FileExistsError, w)
      else if dirname p \<notin> paths w then (Inl FileNotFoundError, w)
      else (Inr (), w\<lparr>paths := insert p (paths w)\<rparr>))"

text \<open>
  \<open>make_temp_dir(network)\<close>: creates the output directory unless it exists, and
  returns its path.
\<close>

definition make_temp_dir :: "environment \<Rightarrow> NebulaNetwork \<Rightarrow> world \<Rightarrow> (py_exception + string) \<times> world" where
  "make_temp_dir env net w =
     (if dir env net \<notin> paths w then
        (case mkdir (dir env net) w of
           (Inl e, w') \<Rightarrow> (Inl e, w')
         | (Inr u, w') \<Rightarrow> (Inr (dir env net), w'))
      else (Inr (dir env net), w))"

text \<open>
  \<open>node_outputs\<close> and \<open>ca_outputs\<close> have the same body over a different prefix, and
  are called in three ways: with no flag they return the three paths; with
  \<open>rm_exist=True\<close> they unlink each of the three that exists; with \<open>exist="all"\<close> or
  \<open>exist="any"\<close> they return whether all, or any, of the three exist. No caller sets
  \<open>assert_exist\<close>.
\<close>

definition output_paths :: "string \<Rightarrow> string list" where
  "output_paths pre = map (\<lambda>ext. pre @ ''.'' @ ext) [''crt'', ''key'', ''png'']"

fun unlink_existing :: "string list \<Rightarrow> world \<Rightarrow> world" where
  "unlink_existing [] w = w"
| "unlink_existing (f # fs) w =
     unlink_existing fs (if f \<in> paths w then w\<lparr>paths := paths w - {f}\<rparr> else w)"

datatype exist_arg = All | Any

fun outputs_exist :: "string list \<Rightarrow> exist_arg \<Rightarrow> world \<Rightarrow> bool" where
  "outputs_exist fs All w = list_all (\<lambda>f. f \<in> paths w) fs"
| "outputs_exist fs Any w = list_ex (\<lambda>f. f \<in> paths w) fs"

definition node_outputs :: "environment \<Rightarrow> NebulaNetwork \<Rightarrow> node_ref \<Rightarrow> string list" where
  "node_outputs env net node = output_paths (node_cert_prefix env net node)"

definition node_outputs_rm_exist :: "environment \<Rightarrow> NebulaNetwork \<Rightarrow> node_ref \<Rightarrow> world \<Rightarrow> world" where
  "node_outputs_rm_exist env net node w = unlink_existing (node_outputs env net node) w"

definition node_outputs_exist :: "environment \<Rightarrow> NebulaNetwork \<Rightarrow> node_ref \<Rightarrow> exist_arg \<Rightarrow> world \<Rightarrow> bool" where
  "node_outputs_exist env net node e w = outputs_exist (node_outputs env net node) e w"

definition ca_outputs :: "environment \<Rightarrow> NebulaNetwork \<Rightarrow> string list" where
  "ca_outputs env net = output_paths (ca_cert_prefix env net)"

definition ca_outputs_rm_exist :: "environment \<Rightarrow> NebulaNetwork \<Rightarrow> world \<Rightarrow> world" where
  "ca_outputs_rm_exist env net w = unlink_existing (ca_outputs env net) w"

definition ca_outputs_exist :: "environment \<Rightarrow> NebulaNetwork \<Rightarrow> exist_arg \<Rightarrow> world \<Rightarrow> bool" where
  "ca_outputs_exist env net e w = outputs_exist (ca_outputs env net) e w"

text \<open>\<open>get_working_dir\<close>: \<open>os.path.abspath(os.curdir)\<close>.\<close>

definition get_working_dir :: "environment \<Rightarrow> NebulaNetwork \<Rightarrow> string" where
  "get_working_dir env net = abspath env ''.''"

text \<open>The container run of \<open>network_cert\<close>; \<open>nw\<close> is the block \<open>network.network\<close>.\<close>

definition ca_call :: "environment \<Rightarrow> NebulaNetwork \<Rightarrow> IPv4Address \<times> nat \<Rightarrow> docker_call" where
  "ca_call env net nw =
     (let ca_out = ca_cert_prefix env net in
      \<lparr>dc_name = ''network_CA_certificate_'' @ cert_authority net @ ''_docker'',
       dc_image = nebula_image,
       dc_command = ''ca -name '' @ cert_authority net @ '' -ips '' @ str_ip (fst nw) @ ''/'' @ str_nat (snd nw)
          @ '' -out-key '' @ ca_out @ ''.key -out-crt '' @ ca_out @ ''.crt -out-qr '' @ ca_out @ ''.png'',
       dc_entrypoint = ''/nebula-cert'',
       dc_working_dir = get_working_dir env net\<rparr>)"

definition network_cert :: "environment \<Rightarrow> NebulaNetwork \<Rightarrow> bool \<Rightarrow> world \<Rightarrow> (py_exception + unit) \<times> world" where
  "network_cert env net overwrite w0 =
     (case make_temp_dir env net w0 of
        (Inl e, w1) \<Rightarrow> (Inl e, w1)
      | (Inr d, w1) \<Rightarrow>
          (let w2 = (if overwrite then ca_outputs_rm_exist env net w1 else w1)
           in case network net of
                Inl e \<Rightarrow> (Inl e, w2)
              | Inr nw \<Rightarrow>
                  if \<not> ca_outputs_exist env net All w2 then
                    if ca_outputs_exist env net Any w2 then
                      (Inl (ValueError (''Missing some of the following files: '' @ str_list env (ca_outputs env net))), w2)
                    else containers_run env (ca_call env net nw) w2
                  else (Inr (), w2)))"

text \<open>\<open>str(node.ip)\<close>; a node without an address prints as \<open>None\<close>.\<close>

definition str_ip_option :: "IPv4Address option \<Rightarrow> string" where
  "str_ip_option a = (case a of None \<Rightarrow> ''None'' | Some x \<Rightarrow> str_ip x)"

text \<open>The container run of \<open>sign_node\<close>.\<close>

definition sign_call :: "environment \<Rightarrow> NebulaNetwork \<Rightarrow> NebulaNode \<Rightarrow> docker_call" where
  "sign_call env net node =
     (let ca_files_prefix = ca_cert_prefix env net;
          fs = node_outputs env net (ByNode node) in
      \<lparr>dc_name = name node @ ''_sign_cert_docker'',
       dc_image = nebula_image,
       dc_command = ''sign -name '' @ name node @ '' -ip '' @ str_ip_option (ip node) @ ''/'' @ str_nat (cidr net)
          @ '' -ca-crt '' @ ca_files_prefix @ ''.crt -ca-key '' @ ca_files_prefix @ ''.key -out-crt '' @ fs ! 0
          @ '' -out-key '' @ fs ! 1 @ '' -out-qr '' @ fs ! 2,
       dc_entrypoint = ''/nebula-cert'',
       dc_working_dir = get_working_dir env net\<rparr>)"

definition sign_node :: "environment \<Rightarrow> NebulaNetwork \<Rightarrow> NebulaNode \<Rightarrow> bool \<Rightarrow> world \<Rightarrow> (py_exception + unit) \<times> world" where
  "sign_node env net node overwrite w0 =
     (case make_temp_dir env net w0 of
        (Inl e, w1) \<Rightarrow> (Inl e, w1)
      | (Inr d, w1) \<Rightarrow>
          (case network_cert env net False w1 of
             (Inl e, w2) \<Rightarrow> (Inl e, w2)
           | (Inr u, w2) \<Rightarrow>
               (let w3 = (if overwrite then node_outputs_rm_exist env net (ByNode node) w2 else w2);
                    fs = node_outputs env net (ByNode node)
                in if \<not> node_outputs_exist env net (ByNode node) All w3 then
                     if node_outputs_exist env net (ByNode node) Any w3 then
                       (Inl (ValueError (''Missing some of the following files: '' @ fs ! 0 @ '', '' @ fs ! 1
                             @ '', and '' @ fs ! 2)), w3)
                     else containers_run env (sign_call env net node) w3
                   else (Inr (), w3))))"

text \<open>The three states of an artifact set, read off the file system.\<close>

datatype artifact_state = Absent | Partial | Complete

definition artifact_state :: "string list \<Rightarrow> world \<Rightarrow> artifact_state" where
  "artifact_state fs w =
     (if outputs_exist fs All w then Complete
      else if outputs_exist fs Any w then Partial else Absent)"

text \<open>
  A concrete setting for the examples: the current directory is \<open>/w\<close>, the authority
  is \<open>CA\<close> over 10.0.0.0/30 with the single node A at 10.0.0.1. The process
  \<open>writing_process\<close> succeeds and writes the authority's three files on a \<open>ca\<close>
  command and node A's three files on any other, \<open>silent_process\<close> succeeds and
  writes nothing, \<open>failing_process\<close> writes the certificate file and then fails,
  \<open>node_failing_process\<close> succeeds and writes the authority's three files on a \<open>ca\<close>
  command, and on any other writes node A's certificate file and then fails.
\<close>

definition example_env :: "(docker_call \<Rightarrow> string set \<Rightarrow> (py_exception + unit) \<times> string set) \<Rightarrow> environment" where
  "example_env p =
     \<lparr>abspath = (\<lambda>s. if s = ''.'' then ''/w'' else ''/w/'' @ s),
      repr_str = (\<lambda>s. [CHR 0x27] @ s @ [CHR 0x27]),
      str_format = (\<lambda>t kv. Inr t),
      yaml_dump = (\<lambda>c. []),
      signing_process = p\<rparr>"

definition io_node :: NebulaNode where
  "io_node = (NebulaNode_default ''A'')\<lparr>ip := Some 167772161\<rparr>"

definition io_network :: NebulaNetwork where
  "io_network = \<lparr>cert_authority = ''CA'', net_ip = 167772160, nodes = [io_node], cidr = 30\<rparr>"

definition ca_files :: "string list" where
  "ca_files = [''/w/CA/CA_10.0.0.0_30.crt'', ''/w/CA/CA_10.0.0.0_30.key'', ''/w/CA/CA_10.0.0.0_30.png'']"

definition node_files :: "string list" where
  "node_files = [''/w/CA/A.crt'', ''/w/CA/A.key'', ''/w/CA/A.png'']"

definition writing_process :: "docker_call \<Rightarrow> string set \<Rightarrow> (py_exception + unit) \<times> string set" where
  "writing_process c ps =
     (Inr (), ps \<union> (if dc_entrypoint c = ''/nebula-cert'' \<and> take 3 (dc_command c) = ''ca '' then set ca_files
                      else set node_files))"


definition failing_process :: "docker_call \<Rightarrow> string set \<Rightarrow> (py_exception + unit) \<times> string set" where
  "failing_process c ps =
     (Inl (ProcessError ''exit status 1''),
      insert (if take 3 (dc_command c) = ''ca '' then ''/w/CA/CA_10.0.0.0_30.crt'' else ''/w/CA/A.crt'') ps)"

definition node_failing_process :: "docker_call \<Rightarrow> string set \<Rightarrow> (py_exception + unit) \<times> string set" where
  "node_failing_process c ps =
     (if take 3 (dc_command c) = ''ca '' then (Inr (), ps \<union> set ca_files)
      else (Inl (ProcessError ''exit status 1''), insert ''/w/CA/A.crt'' ps))"

text \<open>A world with the given paths and an empty trace.\<close>

definition world_of :: "string list \<Rightarrow> world" where
  "world_of fs = \<lparr>paths = set fs, invocations = []\<rparr>"

text \<open>The part of \<open>sign_node\<close> after the authority step, on the world that step left.\<close>

definition node_step :: "environment \<Rightarrow> NebulaNetwork \<Rightarrow> NebulaNode \<Rightarrow> bool \<Rightarrow> world \<Rightarrow> (py_exception + unit) \<times> world" where
  "node_step env net node overwrite w2 =
     (let w3 = (if overwrite then node_outputs_rm_exist env net (ByNode node) w2 else w2);
          fs = node_outputs env net (ByNode node)
      in if \<not> node_outputs_exist env net (ByNode node) All w3 then
           if node_outputs_exist env net (ByNode node) Any w3 then
             (Inl (ValueError (''Missing some of the following files: '' @ fs ! 0 @ '', '' @ fs ! 1
                   @ '', and '' @ fs ! 2)), w3)
           else containers_run env (sign_call env net node) w3
         else (Inr (), w3))"



section \<open>base.py: serialization that skips unset fields\<close>








section \<open>entities.py and io.py: selecting nodes and saving configurations\<close>










section \<open>entities.py: composing the node configurations\<close>

text \<open>
  \<open>NebulaNode.get_firewall_items_from_groups\<close>: every bare label in \<open>self.groups\<close> is
  replaced, in place, by the rule matching that group; the firewall takes the
  resulting list for both directions.
\<close>

definition get_firewall_items_from_groups :: "NebulaNode \<Rightarrow> NebulaNode \<times> Firewall" where
  "get_firewall_items_from_groups self =
     (let rules = map (\<lambda>g. case g of GroupLabel s \<Rightarrow> InOutboundItem_of_group s | GroupRule r \<Rightarrow> r)
                    (groups self)
      in (self\<lparr>groups := map GroupRule rules\<rparr>, \<lparr>outbound = rules, inbound = rules\<rparr>))"

text \<open>\<open>dict(pairs)\<close>: a later pair with the same key replaces the value of the earlier one.\<close>

definition dict_of :: "('k \<times> 'v) list \<Rightarrow> ('k \<times> 'v) list" where
  "dict_of ps = foldl (\<lambda>d kv. AList.update (fst kv) (snd kv) d) [] ps"

text \<open>
  \<open>StaticHostMap(contents=...)\<close>: the model validates its
  \<open>dict[IPvAnyAddress, list[RoutableIPPort]]\<close>; a key or a list element that is
  \<open>None\<close> is refused.
\<close>

fun StaticHostMap_validate :: "(IPv4Address option \<times> RoutableIPPort option list) list \<Rightarrow> py_exception + StaticHostMap" where
  "StaticHostMap_validate [] = Inr []"
| "StaticHostMap_validate (kv # rest) =
     (case fst kv of
        None \<Rightarrow> Inl ValidationError
      | Some a \<Rightarrow>
          (case those (snd kv) of
             None \<Rightarrow> Inl ValidationError
           | Some ps \<Rightarrow>
               (case StaticHostMap_validate rest of
                  Inl e \<Rightarrow> Inl e
                | Inr m \<Rightarrow> Inr ((a, ps) # m))))"

text \<open>\<open>dict([(n.ip, [n.public]) for n in self.lighthouses])\<close>.\<close>

definition lighthouse_contents :: "NebulaNetwork \<Rightarrow> (IPv4Address option \<times> RoutableIPPort option list) list" where
  "lighthouse_contents self = dict_of (map (\<lambda>n. (ip n, [public n])) (lighthouses self))"

text \<open>
  The body of the loop of \<open>create_node_cert\<close> after \<open>sign_node\<close>: the node with its
  configuration attached, or the exception of the static host map's validation (the
  node's groups are resolved by then).
\<close>

definition compose_node :: "environment \<Rightarrow> NebulaNetwork \<Rightarrow> NebulaNode \<Rightarrow> (py_exception + unit) \<times> NebulaNode" where
  "compose_node env self node =
     (let pki = \<lparr>ca = ca_outputs env self ! 0,
                 cert = node_outputs env self (ByNode node) ! 0,
                 key = node_outputs env self (ByNode node) ! 1\<rparr>;
          lh = \<lparr>lh_am_lighthouse = am_lighthouse node\<rparr>;
          (node1, fw) = get_firewall_items_from_groups node
      in case (if \<not> am_lighthouse node then StaticHostMap_validate (lighthouse_contents self)
               else Inr []) of
           Inl e \<Rightarrow> (Inl e, node1)
         | Inr shm \<Rightarrow>
             (Inr (), node1\<lparr>config := Some \<lparr>pki = pki, static_host_map = shm,
                                            lighthouse = lh, firewall = fw\<rparr>\<rparr>))"

text \<open>
  \<open>for node in self.nodes\<close>, by position: the node objects are updated in place, so
  later iterations see the configurations attached by earlier ones.
\<close>

fun create_node_cert_loop :: "environment \<Rightarrow> nat list \<Rightarrow> NebulaNetwork \<Rightarrow> world \<Rightarrow> (py_exception + unit) \<times> NebulaNetwork \<times> world" where
  "create_node_cert_loop env [] self w = (Inr (), self, w)"
| "create_node_cert_loop env (k # ks) self w =
     (case sign_node env self (nodes self ! k) False w of
        (Inl e, w') \<Rightarrow> (Inl e, self, w')
      | (Inr u, w') \<Rightarrow>
          (case compose_node env self (nodes self ! k) of
             (Inl e, node') \<Rightarrow> (Inl e, self\<lparr>nodes := (nodes self)[k := node']\<rparr>, w')
           | (Inr u', node') \<Rightarrow>
               create_node_cert_loop env ks (self\<lparr>nodes := (nodes self)[k := node']\<rparr>) w'))"

definition create_node_cert :: "environment \<Rightarrow> NebulaNetwork \<Rightarrow> world \<Rightarrow> (py_exception + unit) \<times> NebulaNetwork \<times> world" where
  "create_node_cert env self w = create_node_cert_loop env [0 ..< length (nodes self)] self w"

text \<open>What the loop never changes in a node.\<close>

definition node_identity :: "NebulaNode \<Rightarrow> string \<times> IPv4Address option \<times> bool \<times> RoutableIPPort option" where
  "node_identity n = (name n, ip n, am_lighthouse n, public n)"

text \<open>
  The example network as constructed (node C at 10.100.100.1), and a world in which
  the authority's set and the three nodes' sets are Complete.
\<close>

definition example_network_built :: NebulaNetwork where
  "example_network_built =
     example_network
       \<lparr>cert_authority := ''TestCA'',
        nodes := [(NebulaNode_default ''A'')\<lparr>ip := Some 174351365\<rparr>,
                  (NebulaNode_default ''B'')\<lparr>ip := Some 174351366, am_lighthouse := True,
                     public := Some \<lparr>rip_ip = 3405803777, rip_port = 4242\<rparr>\<rparr>,
                  (NebulaNode_default ''C'')\<lparr>ip := Some 174351361\<rparr>]\<rparr>"

definition example_world :: world where
  "example_world =
     world_of (''/w/TestCA'' # output_paths ''/w/TestCA/TestCA_10.100.100.0_24'' @
               output_paths ''/w/TestCA/A'' @ output_paths ''/w/TestCA/B'' @ output_paths ''/w/TestCA/C'')"

text \<open>
  A network with two lighthouses at the same address, 10.0.0.1, with the public
  endpoints 203.0.113.1:4242 and 203.0.113.2:4242, and node N at 10.0.0.2; and a
  world in which the authority's set and the three nodes' sets are Complete.
\<close>

definition twin_network :: NebulaNetwork where
  "twin_network =
     \<lparr>cert_authority = ''CA'', net_ip = 167772160,
      nodes = [(NebulaNode_default ''L1'')\<lparr>ip := Some 167772161, am_lighthouse := True,
                  public := Some \<lparr>rip_ip = 3405803777, rip_port = 4242\<rparr>\<rparr>,
               (NebulaNode_default ''L2'')\<lparr>ip := Some 167772161, am_lighthouse := True,
                  public := Some \<lparr>rip_ip = 3405803778, rip_port = 4242\<rparr>\<rparr>,
               (NebulaNode_default ''N'')\<lparr>ip := Some 167772162\<rparr>],
      cidr = 30\<rparr>"

definition twin_world :: world where
  "twin_world =
     world_of (''/w/CA'' # ca_files @
               output_paths ''/w/CA/L1'' @ output_paths ''/w/CA/L2'' @ output_paths ''/w/CA/N'')"

section \<open>Properties of the address allocation\<close>

lemma set_explicit_ips: "set (explicit_ips ns) = {a. \<exists>n \<in> set ns. ip n = Some a}"
  by (force simp: explicit_ips_def map_filter_def image_iff)

lemma remove_explicit_eq: "remove_explicit ns h = h - set (explicit_ips ns)"
proof (induction ns arbitrary: h)
  case Nil
  then show ?case by (simp add: remove_explicit_def explicit_ips_def map_filter_def)
next
  case (Cons n ns)
  have "remove_explicit (n # ns) h = remove_explicit ns (case ip n of Some a \<Rightarrow> h - {a} | None \<Rightarrow> h)"
    by (simp add: remove_explicit_def)
  then show ?case using Cons.IH
    by (auto simp: explicit_ips_def map_filter_def split: option.splits)
qed

lemma finite_hosts_minus: "finite (remove_explicit ns (set hs))"
  by (simp add: remove_explicit_eq)

lemma candidate_hosts_set:
  "set (candidate_hosts self nw) = set (hosts nw) - set (explicit_ips (nodes self))"
  by (simp add: candidate_hosts_def remove_explicit_eq)

lemma candidate_hosts_sorted: "sorted (candidate_hosts self nw)"
  by (simp add: candidate_hosts_def)

lemma candidate_hosts_distinct: "distinct (candidate_hosts self nw)"
  by (simp add: candidate_hosts_def)

lemma assign_hosts_succeeds:
  "i + length (unset_nodes ns) \<le> length hs \<Longrightarrow> \<exists>ns'. assign_hosts hs i ns = Inr ns'"
proof (induction ns arbitrary: i)
  case Nil
  then show ?case by simp
next
  case (Cons n ns)
  show ?case
  proof (cases "ip n")
    case None
    with Cons.prems have "Suc i + length (unset_nodes ns) \<le> length hs" and "i < length hs"
      by (simp_all add: unset_nodes_def)
    with Cons.IH [of "Suc i"] None show ?thesis by auto
  next
    case (Some a)
    with Cons.prems have "i + length (unset_nodes ns) \<le> length hs"
      by (simp add: unset_nodes_def)
    with Cons.IH [of i] Some show ?thesis by auto
  qed
qed

lemma assign_hosts_fails:
  "length hs < i + length (unset_nodes ns) \<Longrightarrow> i \<le> length hs \<Longrightarrow> assign_hosts hs i ns = Inl IndexError"
proof (induction ns arbitrary: i)
  case Nil
  then show ?case by (simp add: unset_nodes_def)
next
  case (Cons n ns)
  show ?case
  proof (cases "ip n")
    case None
    show ?thesis
    proof (cases "i < length hs")
      case True
      with Cons.prems None have "length hs < Suc i + length (unset_nodes ns)" "Suc i \<le> length hs"
        by (simp_all add: unset_nodes_def)
      with Cons.IH [of "Suc i"] None True show ?thesis by simp
    next
      case False
      with None show ?thesis by simp
    qed
  next
    case (Some a)
    with Cons.prems have "length hs < i + length (unset_nodes ns)"
      by (simp add: unset_nodes_def)
    with Cons.IH [of i] Cons.prems Some show ?thesis by simp
  qed
qed

lemma assign_hosts_result:
  "assign_hosts hs i ns = Inr ns' \<Longrightarrow>
   length ns' = length ns \<and>
   (\<forall>k < length ns.
      ns' ! k = (case ip (ns ! k) of
                   Some a \<Rightarrow> ns ! k
                 | None \<Rightarrow> (ns ! k)\<lparr>ip := Some (hs ! (i + length (unset_nodes (take k ns))))\<rparr>))"
proof (induction ns arbitrary: i ns')
  case Nil
  then show ?case by simp
next
  case (Cons n ns)
  show ?case
  proof (cases "ip n")
    case None
    with Cons.prems obtain rest where r: "assign_hosts hs (Suc i) ns = Inr rest"
      and ns': "ns' = n\<lparr>ip := Some (hs ! i)\<rparr> # rest"
      by (auto split: if_splits sum.splits)
    from Cons.IH [OF r] have len: "length rest = length ns"
      and nth: "\<And>k. k < length ns \<Longrightarrow> rest ! k = (case ip (ns ! k) of
                   Some a \<Rightarrow> ns ! k
                 | None \<Rightarrow> (ns ! k)\<lparr>ip := Some (hs ! (Suc i + length (unset_nodes (take k ns))))\<rparr>)"
      by auto
    show ?thesis
    proof (intro conjI allI impI)
      show "length ns' = length (n # ns)" using ns' len by simp
    next
      fix k assume k: "k < length (n # ns)"
      show "ns' ! k = (case ip ((n # ns) ! k) of
                   Some a \<Rightarrow> (n # ns) ! k
                 | None \<Rightarrow> ((n # ns) ! k)\<lparr>ip := Some (hs ! (i + length (unset_nodes (take k (n # ns)))))\<rparr>)"
      proof (cases k)
        case 0
        then show ?thesis using ns' None by (simp add: unset_nodes_def)
      next
        case (Suc j)
        with k have "j < length ns" by simp
        from nth [OF this] show ?thesis using Suc ns' None
          by (simp add: unset_nodes_def split: option.splits)
      qed
    qed
  next
    case (Some a)
    with Cons.prems obtain rest where r: "assign_hosts hs i ns = Inr rest"
      and ns': "ns' = n # rest"
      by (auto split: sum.splits)
    from Cons.IH [OF r] have len: "length rest = length ns"
      and nth: "\<And>k. k < length ns \<Longrightarrow> rest ! k = (case ip (ns ! k) of
                   Some a \<Rightarrow> ns ! k
                 | None \<Rightarrow> (ns ! k)\<lparr>ip := Some (hs ! (i + length (unset_nodes (take k ns))))\<rparr>)"
      by auto
    show ?thesis
    proof (intro conjI allI impI)
      show "length ns' = length (n # ns)" using ns' len by simp
    next
      fix k assume k: "k < length (n # ns)"
      show "ns' ! k = (case ip ((n # ns) ! k) of
                   Some a \<Rightarrow> (n # ns) ! k
                 | None \<Rightarrow> ((n # ns) ! k)\<lparr>ip := Some (hs ! (i + length (unset_nodes (take k (n # ns)))))\<rparr>)"
      proof (cases k)
        case 0
        then show ?thesis using ns' Some by simp
      next
        case (Suc j)
        with k have "j < length ns" by simp
        from nth [OF this] show ?thesis using Suc ns' Some
          by (simp add: unset_nodes_def split: option.splits)
      qed
    qed
  qed
qed

lemma assign_hosts_result0:
  "assign_hosts hs 0 ns = Inr ns' \<Longrightarrow>
   length ns' = length ns \<and>
   (\<forall>k < length ns.
      ns' ! k = (case ip (ns ! k) of
                   Some a \<Rightarrow> ns ! k
                 | None \<Rightarrow> (ns ! k)\<lparr>ip := Some (hs ! length (unset_nodes (take k ns)))\<rparr>))"
  using assign_hosts_result [of hs 0 ns ns'] by (simp cong: option.case_cong)

lemma unset_before_less:
  "k < length ns \<Longrightarrow> ip (ns ! k) = None \<Longrightarrow>
   length (unset_nodes (take k ns)) < length (unset_nodes ns)"
proof -
  assume k: "k < length ns" and u: "ip (ns ! k) = None"
  have "ns = take k ns @ ns ! k # drop (Suc k) ns"
    using k by (rule id_take_nth_drop)
  then have "unset_nodes ns = unset_nodes (take k ns) @ unset_nodes (ns ! k # drop (Suc k) ns)"
    unfolding unset_nodes_def by (metis filter_append)
  then show ?thesis using u by (simp add: unset_nodes_def)
qed

lemma unset_before_mono:
  assumes "j < k" "k \<le> length ns" "ip (ns ! j) = None"
  shows "length (unset_nodes (take j ns)) < length (unset_nodes (take k ns))"
proof -
  have "j < length (take k ns)" using assms by simp
  moreover have "ip (take k ns ! j) = None" using assms by simp
  ultimately have "length (unset_nodes (take j (take k ns))) < length (unset_nodes (take k ns))"
    by (rule unset_before_less)
  moreover have "take j (take k ns) = take j ns" using assms by (simp add: min_def)
  ultimately show ?thesis by simp
qed

lemma explicit_ips_nth_distinct:
  "distinct (explicit_ips ns) \<Longrightarrow> i < j \<Longrightarrow> j < length ns \<Longrightarrow>
   ip (ns ! i) = Some a \<Longrightarrow> ip (ns ! j) = Some b \<Longrightarrow> a \<noteq> b"
proof (induction ns arbitrary: i j)
  case Nil
  then show ?case by simp
next
  case (Cons n ns)
  from Cons.prems(2) obtain j' where j: "j = Suc j'" by (cases j) auto
  with Cons.prems have j': "j' < length ns" and bj: "ip (ns ! j') = Some b" by simp_all
  have d: "distinct (explicit_ips ns)"
    using Cons.prems(1) by (cases "ip n") (simp_all add: explicit_ips_def map_filter_def)
  show ?case
  proof (cases i)
    case 0
    with Cons.prems have "ip n = Some a" by simp
    with Cons.prems(1) have "a \<notin> set (explicit_ips ns)"
      by (simp add: explicit_ips_def map_filter_def)
    moreover have "b \<in> set (explicit_ips ns)"
      using j' bj by (auto simp: set_explicit_ips)
    ultimately show ?thesis by auto
  next
    case (Suc i')
    with Cons.prems j have "i' < j'" "ip (ns ! i') = Some a" by simp_all
    from Cons.IH [OF d this(1) j' this(2) bj] show ?thesis .
  qed
qed

lemma sorted_nth0_least:
  fixes xs :: "nat list"
  assumes "sorted xs" "x \<in> set xs" "\<forall>y \<in> set xs. x \<le> y"
  shows "xs ! 0 = x"
proof (cases xs)
  case Nil
  with assms show ?thesis by simp
next
  case (Cons y ys)
  with assms have "y \<le> x" by auto
  moreover from assms Cons have "x \<le> y" by simp
  ultimately show ?thesis using Cons by simp
qed

lemma network_cert_authority_update [simp]:
  "network (self\<lparr>cert_authority := c\<rparr>) = network self"
  by (simp add: network_def)

lemma candidate_hosts_cert_authority_update [simp]:
  "candidate_hosts (self\<lparr>cert_authority := c\<rparr>) nw = candidate_hosts self nw"
  by (simp add: candidate_hosts_def)

lemma model_post_init_eq:
  "network self = Inr nw \<Longrightarrow>
   model_post_init self =
     (case assign_hosts (candidate_hosts self nw) 0 (nodes self) of
        Inl e \<Rightarrow> Inl e
      | Inr ns \<Rightarrow> Inr (self\<lparr>cert_authority := filter (\<lambda>c. c \<noteq> CHR '' '') (cert_authority self), nodes := ns\<rparr>))"
  by (simp add: model_post_init_def Let_def)

text \<open>
  Claim C1, as the code has it. The candidate pool is the sorted list of the block's
  host addresses that no node takes explicitly. When the pool holds at least as
  many addresses as there are nodes without an address, construction succeeds; it
  leaves every node with an explicit address untouched and gives the \<open>i\<close>-th node
  without an address (counting from 0, in declared order) the \<open>i\<close>-th smallest pool
  address. An assigned address differs from every other node's address, assigned
  or explicit; when the explicit addresses are pairwise distinct, so are the
  addresses of all nodes. The result is a function of the node list and the
  block, so it is deterministic.
\<close>

theorem allocation_ith_smallest_free_host:
  assumes nw: "network self = Inr nw"
    and cap: "length (unset_nodes (nodes self)) \<le> length (candidate_hosts self nw)"
  shows "\<exists>ns'. model_post_init self =
             Inr (self\<lparr>cert_authority := filter (\<lambda>c. c \<noteq> CHR '' '') (cert_authority self), nodes := ns'\<rparr>) \<and>
           length ns' = length (nodes self) \<and>
           (\<forall>k < length (nodes self).
              ns' ! k =
                (case ip (nodes self ! k) of
                   Some a \<Rightarrow> nodes self ! k
                 | None \<Rightarrow> (nodes self ! k)
                     \<lparr>ip := Some (candidate_hosts self nw ! length (unset_nodes (take k (nodes self))))\<rparr>)) \<and>
           (\<forall>j k. j < k \<and> k < length (nodes self) \<and>
                  (ip (nodes self ! j) = None \<or> ip (nodes self ! k) = None) \<longrightarrow>
                  ip (ns' ! j) \<noteq> ip (ns' ! k)) \<and>
           (distinct (explicit_ips (nodes self)) \<longrightarrow> distinct (map ip ns')) \<and>
           sorted (candidate_hosts self nw) \<and> distinct (candidate_hosts self nw) \<and>
           set (candidate_hosts self nw) = set (hosts nw) - set (explicit_ips (nodes self))"
proof -
  let ?ns = "nodes self"
  let ?hs = "candidate_hosts self nw"
  let ?c = "\<lambda>k. length (unset_nodes (take k ?ns))"
  from cap have "0 + length (unset_nodes ?ns) \<le> length ?hs" by simp
  from assign_hosts_succeeds [OF this] obtain ns' where a: "assign_hosts ?hs 0 ?ns = Inr ns'" ..
  from assign_hosts_result0 [OF a]
  have len: "length ns' = length ?ns"
    and nth: "\<And>k. k < length ?ns \<Longrightarrow> ns' ! k =
        (case ip (?ns ! k) of Some a \<Rightarrow> ?ns ! k | None \<Rightarrow> (?ns ! k)\<lparr>ip := Some (?hs ! ?c k)\<rparr>)"
    by auto
  have ip_unset: "ip (ns' ! k) = Some (?hs ! ?c k)" if "k < length ?ns" "ip (?ns ! k) = None" for k
    using nth [OF that(1)] that(2) by simp
  have ip_set: "ip (ns' ! k) = ip (?ns ! k)" if "k < length ?ns" "ip (?ns ! k) = Some a" for k a
    using nth [OF that(1)] that(2) by simp
  have c_bound: "?c k < length ?hs" if "k < length ?ns" "ip (?ns ! k) = None" for k
    using unset_before_less [OF that] cap by simp
  have in_pool: "?hs ! ?c k \<in> set ?hs" if "k < length ?ns" "ip (?ns ! k) = None" for k
    using c_bound [OF that] by simp
  have not_explicit: "?hs ! ?c k \<noteq> a"
    if "k < length ?ns" "ip (?ns ! k) = None" "m < length ?ns" "ip (?ns ! m) = Some a" for k m a
  proof -
    have "a \<in> set (explicit_ips ?ns)" using that(3,4) by (auto simp: set_explicit_ips)
    with in_pool [OF that(1,2)] show ?thesis by (auto simp: candidate_hosts_set)
  qed
  have differ: "ip (ns' ! j) \<noteq> ip (ns' ! k)"
    if jk: "j < k" "k < length ?ns" and u: "ip (?ns ! j) = None \<or> ip (?ns ! k) = None" for j k
  proof -
    from jk have j: "j < length ?ns" by simp
    show ?thesis
    proof (cases "ip (?ns ! j)")
      case None
      note nj = this
      show ?thesis
      proof (cases "ip (?ns ! k)")
        case None
        have "?c j < ?c k" using unset_before_mono [of j k ?ns] jk nj by simp
        moreover have "?c k < length ?hs" using c_bound [OF jk(2) None] .
        ultimately have "?hs ! ?c j \<noteq> ?hs ! ?c k"
          using candidate_hosts_distinct [of self nw] by (simp add: nth_eq_iff_index_eq)
        then show ?thesis using ip_unset [OF j nj] ip_unset [OF jk(2) None] by simp
      next
        case (Some b)
        from not_explicit [OF j nj jk(2) Some]
        show ?thesis using ip_unset [OF j nj] ip_set [OF jk(2) Some] Some by simp
      qed
    next
      case (Some a)
      with u have nk: "ip (?ns ! k) = None" by simp
      from not_explicit [OF jk(2) nk j Some]
      show ?thesis using ip_unset [OF jk(2) nk] ip_set [OF j Some] Some by simp
    qed
  qed
  have differ2: "ip (ns' ! j) \<noteq> ip (ns' ! k)"
    if d: "distinct (explicit_ips ?ns)" and jk: "j < k" "k < length ?ns" for j k
  proof (cases "ip (?ns ! j) = None \<or> ip (?ns ! k) = None")
    case True
    from differ [OF jk True] show ?thesis .
  next
    case False
    then obtain a b where ab: "ip (?ns ! j) = Some a" "ip (?ns ! k) = Some b" by auto
    from jk have j: "j < length ?ns" by simp
    from explicit_ips_nth_distinct [OF d jk ab] have "a \<noteq> b" .
    then show ?thesis using ip_set [OF j ab(1)] ip_set [OF jk(2) ab(2)] ab by simp
  qed
  have dist: "distinct (map ip ns')" if d: "distinct (explicit_ips ?ns)"
  proof -
    have "map ip ns' ! i \<noteq> map ip ns' ! j" if "i < length ns'" "j < length ns'" "i \<noteq> j" for i j
    proof (cases "i < j")
      case True
      with differ2 [OF d True] that len show ?thesis by simp
    next
      case False
      with that have "j < i" by simp
      with differ2 [OF d this] that len show ?thesis by (simp add: eq_commute)
    qed
    then show ?thesis by (simp add: distinct_conv_nth)
  qed
  have "model_post_init self =
          Inr (self\<lparr>cert_authority := filter (\<lambda>c. c \<noteq> CHR '' '') (cert_authority self), nodes := ns'\<rparr>)"
    using a by (simp add: model_post_init_eq [OF nw])
  moreover have "\<forall>k < length ?ns. ns' ! k =
        (case ip (?ns ! k) of Some a \<Rightarrow> ?ns ! k | None \<Rightarrow> (?ns ! k)\<lparr>ip := Some (?hs ! ?c k)\<rparr>)"
    using nth by blast
  moreover have "\<forall>j k. j < k \<and> k < length ?ns \<and> (ip (?ns ! j) = None \<or> ip (?ns ! k) = None) \<longrightarrow>
                  ip (ns' ! j) \<noteq> ip (ns' ! k)"
    using differ by blast
  moreover have "distinct (explicit_ips ?ns) \<longrightarrow> distinct (map ip ns')"
    using dist by blast
  ultimately show ?thesis
    using len candidate_hosts_sorted [of self nw] candidate_hosts_distinct [of self nw]
      candidate_hosts_set [of self nw]
    by blast
qed

text \<open>
  Claim C2, as the code has it. With \<open>N\<close> the number of host addresses of the block
  that no node takes explicitly and \<open>M\<close> the number of nodes without an address:
  if \<open>M \<le> N\<close> construction succeeds and every node has an address afterwards; if
  \<open>M > N\<close> construction fails with the \<open>IndexError\<close> of the list lookup
  \<open>hosts[i]\<close>.
\<close>

theorem allocation_capacity:
  assumes nw: "network self = Inr nw"
  shows "(if length (unset_nodes (nodes self)) \<le> length (candidate_hosts self nw)
          then \<exists>self'. model_post_init self = Inr self' \<and>
                 length (nodes self') = length (nodes self) \<and>
                 (\<forall>n \<in> set (nodes self'). ip n \<noteq> None)
          else model_post_init self = Inl IndexError) \<and>
         length (candidate_hosts self nw) = card (set (hosts nw) - set (explicit_ips (nodes self)))"
proof -
  let ?ns = "nodes self"
  let ?hs = "candidate_hosts self nw"
  have card: "length ?hs = card (set (hosts nw) - set (explicit_ips ?ns))"
    using candidate_hosts_set [of self nw] candidate_hosts_distinct [of self nw]
    by (metis distinct_card)
  have ok: "\<exists>self'. model_post_init self = Inr self' \<and> length (nodes self') = length ?ns \<and>
                 (\<forall>n \<in> set (nodes self'). ip n \<noteq> None)"
    if cap: "length (unset_nodes ?ns) \<le> length ?hs"
  proof -
    from cap have "0 + length (unset_nodes ?ns) \<le> length ?hs" by simp
    from assign_hosts_succeeds [OF this] obtain ns' where a: "assign_hosts ?hs 0 ?ns = Inr ns'" ..
    from assign_hosts_result0 [OF a]
    have len: "length ns' = length ?ns"
      and nth: "\<And>k. k < length ?ns \<Longrightarrow> ns' ! k =
          (case ip (?ns ! k) of Some a \<Rightarrow> ?ns ! k
           | None \<Rightarrow> (?ns ! k)\<lparr>ip := Some (?hs ! length (unset_nodes (take k ?ns)))\<rparr>)"
      by auto
    have "ip n \<noteq> None" if "n \<in> set ns'" for n
    proof -
      from that obtain k where k: "k < length ns'" "n = ns' ! k" by (auto simp: in_set_conv_nth)
      with len have "k < length ?ns" by simp
      from nth [OF this] k show ?thesis by (cases "ip (?ns ! k)") auto
    qed
    moreover have "model_post_init self =
          Inr (self\<lparr>cert_authority := filter (\<lambda>c. c \<noteq> CHR '' '') (cert_authority self), nodes := ns'\<rparr>)"
      using a by (simp add: model_post_init_eq [OF nw])
    ultimately show ?thesis using len by auto
  qed
  have bad: "model_post_init self = Inl IndexError" if "\<not> length (unset_nodes ?ns) \<le> length ?hs"
  proof -
    from that have "length ?hs < 0 + length (unset_nodes ?ns)" by simp
    from assign_hosts_fails [OF this] show ?thesis
      by (simp add: model_post_init_eq [OF nw])
  qed
  show ?thesis using ok bad card by simp
qed

subsection \<open>The example networks\<close>

lemma example_network_block: "network example_network = Inr (174351360, 24)"
  by (simp add: network_def example_network_def)

lemma small_network_block: "network small_network = Inr (167772160, 30)"
  by (simp add: network_def small_network_def)

lemma shared_network_block: "network shared_network = Inr (167772160, 30)"
  by (simp add: network_def shared_network_def)

lemma example_network_hosts: "hosts (174351360, 24) = [174351361 ..< 174351615]"
  by (simp add: hosts_def del: upt_rec_numeral)

lemma example_network_pool_set:
  "set (candidate_hosts example_network (174351360, 24)) =
     {174351361 ..< 174351615} - {174351365, 174351366}"
proof -
  have "set (explicit_ips (nodes example_network)) = {174351365, 174351366}"
    by (simp add: example_network_def explicit_ips_def map_filter_def NebulaNode_default_def)
  moreover have "set (hosts (174351360, 24)) = {174351361 ..< 174351615}"
    unfolding example_network_hosts by (rule set_upt)
  ultimately show ?thesis by (simp only: candidate_hosts_set)
qed

lemma example_network_pool_first:
  "candidate_hosts example_network (174351360, 24) ! 0 = 174351361"
  by (rule sorted_nth0_least) (auto simp: candidate_hosts_sorted example_network_pool_set)

lemma example_network_pool_nonempty:
  "Suc 0 \<le> length (candidate_hosts example_network (174351360, 24))"
proof -
  have "174351361 \<in> set (candidate_hosts example_network (174351360, 24))"
    by (simp add: example_network_pool_set)
  then have "0 < length (candidate_hosts example_network (174351360, 24))"
    by (rule length_pos_if_in_set)
  then show ?thesis by (rule Suc_leI)
qed

lemma small_network_pool: "candidate_hosts small_network (167772160, 30) = [167772162]"
  by (simp add: candidate_hosts_def remove_explicit_def hosts_def small_network_def
      NebulaNode_default_def upt_conv_Cons)

lemma shared_network_pool: "candidate_hosts shared_network (167772160, 30) = [167772162]"
  by (simp add: candidate_hosts_def remove_explicit_def hosts_def shared_network_def
      NebulaNode_default_def upt_conv_Cons)

lemma small_network_hosts: "hosts (167772160, 30) = [167772161, 167772162]"
  by (simp add: hosts_def upt_conv_Cons)

lemma small_network_fails: "model_post_init small_network = Inl IndexError"
  by (simp add: model_post_init_eq [OF small_network_block] small_network_pool)
     (simp add: small_network_def NebulaNode_default_def)

lemma shared_network_kept: "model_post_init shared_network = Inr shared_network"
  by (simp add: model_post_init_eq [OF shared_network_block] shared_network_pool)
     (simp add: shared_network_def NebulaNode_default_def)

text \<open>
  The end-to-end example: in 10.100.100.0/24 with 10.100.100.5 and 10.100.100.6 taken
  explicitly, node C receives 10.100.100.1, and the authority name loses its space.
\<close>

theorem allocation_ith_smallest_free_host_witness:
  "network example_network = Inr (174351360, 24) \<and>
   length (unset_nodes (nodes example_network)) \<le>
     length (candidate_hosts example_network (174351360, 24)) \<and>
   model_post_init example_network =
     Inr (example_network
           \<lparr>cert_authority := ''TestCA'',
            nodes := [(NebulaNode_default ''A'')\<lparr>ip := Some 174351365\<rparr>,
                      (NebulaNode_default ''B'')\<lparr>ip := Some 174351366, am_lighthouse := True,
                         public := Some \<lparr>rip_ip = 3405803777, rip_port = 4242\<rparr>\<rparr>,
                      (NebulaNode_default ''C'')\<lparr>ip := Some 174351361\<rparr>]\<rparr>)"
proof -
  let ?nw = "(174351360, 24) :: nat \<times> nat"
  have u: "unset_nodes (nodes example_network) = [NebulaNode_default ''C'']"
    by (simp add: unset_nodes_def example_network_def NebulaNode_default_def)
  have cap: "length (unset_nodes (nodes example_network)) \<le> length (candidate_hosts example_network ?nw)"
    using example_network_pool_nonempty by (simp add: u)
  from allocation_ith_smallest_free_host [OF example_network_block cap]
  obtain ns' where m: "model_post_init example_network =
        Inr (example_network\<lparr>cert_authority := filter (\<lambda>c. c \<noteq> CHR '' '') (cert_authority example_network), nodes := ns'\<rparr>)"
    and len: "length ns' = length (nodes example_network)"
    and nth: "\<forall>k < length (nodes example_network).
              ns' ! k =
                (case ip (nodes example_network ! k) of
                   Some a \<Rightarrow> nodes example_network ! k
                 | None \<Rightarrow> (nodes example_network ! k)
                     \<lparr>ip := Some (candidate_hosts example_network ?nw ! length (unset_nodes (take k (nodes example_network))))\<rparr>)"
    by blast
  from len obtain x y z where ns': "ns' = [x, y, z]"
    by (auto simp: example_network_def length_Suc_conv numeral_3_eq_3)
  have n: "nodes example_network = [(NebulaNode_default ''A'')\<lparr>ip := Some 174351365\<rparr>,
               (NebulaNode_default ''B'')\<lparr>ip := Some 174351366, am_lighthouse := True,
                  public := Some \<lparr>rip_ip = 3405803777, rip_port = 4242\<rparr>\<rparr>,
               NebulaNode_default ''C'']"
    by (simp add: example_network_def)
  from nth have "ns' ! 0 = (NebulaNode_default ''A'')\<lparr>ip := Some 174351365\<rparr>"
    unfolding n by (simp add: NebulaNode_default_def)
  moreover from nth have "ns' ! 1 = (NebulaNode_default ''B'')\<lparr>ip := Some 174351366, am_lighthouse := True,
                  public := Some \<lparr>rip_ip = 3405803777, rip_port = 4242\<rparr>\<rparr>"
    unfolding n by (simp add: NebulaNode_default_def)
  moreover from nth have "ns' ! 2 = (NebulaNode_default ''C'')
        \<lparr>ip := Some (candidate_hosts example_network ?nw ! length (unset_nodes (take 2 (nodes example_network))))\<rparr>"
    unfolding n by (simp add: NebulaNode_default_def)
  moreover have "length (unset_nodes (take 2 (nodes example_network))) = 0"
    by (simp add: n unset_nodes_def NebulaNode_default_def)
  ultimately have "ns' = [(NebulaNode_default ''A'')\<lparr>ip := Some 174351365\<rparr>,
                      (NebulaNode_default ''B'')\<lparr>ip := Some 174351366, am_lighthouse := True,
                         public := Some \<lparr>rip_ip = 3405803777, rip_port = 4242\<rparr>\<rparr>,
                      (NebulaNode_default ''C'')\<lparr>ip := Some 174351361\<rparr>]"
    using ns' example_network_pool_first by simp
  moreover have "filter (\<lambda>c. c \<noteq> CHR '' '') (cert_authority example_network) = ''TestCA''"
    by (simp add: example_network_def)
  ultimately show ?thesis using m cap example_network_block by simp
qed

text \<open>
  The size of the block alone does not decide success: 10.0.0.0/30 has two host
  addresses and \<open>small_network\<close> has two nodes without an address, yet construction
  raises \<open>IndexError\<close>, because node A holds one of the two addresses. And nothing
  separates explicit addresses: \<open>shared_network\<close> is constructed with two nodes at
  10.0.0.1.
\<close>

theorem allocation_block_size_counterexample:
  "network small_network = Inr (167772160, 30) \<and>
   length (unset_nodes (nodes small_network)) \<le> length (hosts (167772160, 30)) \<and>
   model_post_init small_network = Inl IndexError \<and>
   model_post_init shared_network = Inr shared_network \<and>
   ip (nodes shared_network ! 0) = ip (nodes shared_network ! 1)"
proof -
  have "length (unset_nodes (nodes small_network)) \<le> length (hosts (167772160, 30))"
    by (simp add: small_network_hosts) (simp add: unset_nodes_def small_network_def NebulaNode_default_def)
  moreover have "ip (nodes shared_network ! 0) = ip (nodes shared_network ! 1)"
    by (simp add: shared_network_def)
  ultimately show ?thesis
    using small_network_block small_network_fails shared_network_kept by simp
qed

text \<open>Both branches of the capacity property, on the example block and on the /30.\<close>

theorem allocation_capacity_witness:
  "network example_network = Inr (174351360, 24) \<and>
   (\<exists>self'. model_post_init example_network = Inr self' \<and>
      length (nodes self') = length (nodes example_network) \<and>
      (\<forall>n \<in> set (nodes self'). ip n \<noteq> None)) \<and>
   network small_network = Inr (167772160, 30) \<and>
   model_post_init small_network = Inl IndexError"
proof -
  have u: "length (unset_nodes (nodes example_network)) = Suc 0"
    by (simp add: unset_nodes_def example_network_def NebulaNode_default_def)
  have v: "length (unset_nodes (nodes small_network)) = 2"
    by (simp add: unset_nodes_def small_network_def NebulaNode_default_def)
  from allocation_capacity [OF example_network_block] example_network_pool_nonempty
  have "\<exists>self'. model_post_init example_network = Inr self' \<and>
      length (nodes self') = length (nodes example_network) \<and>
      (\<forall>n \<in> set (nodes self'). ip n \<noteq> None)"
    by (simp add: u)
  moreover from allocation_capacity [OF small_network_block]
  have "model_post_init small_network = Inl IndexError"
    by (simp add: v small_network_pool)
  ultimately show ?thesis using example_network_block small_network_block by blast
qed

text \<open>The exception of an exhausted pool is the builtin \<open>IndexError\<close>.\<close>

theorem allocation_capacity_error_counterexample:
  "model_post_init small_network = Inl IndexError \<and>
   exception_name IndexError \<noteq> ''CapacityError''"
  using small_network_fails by simp

section \<open>Properties of certificate issuance\<close>

lemma make_temp_dir_exists:
  "dir env net \<in> paths w \<Longrightarrow> make_temp_dir env net w = (Inr (dir env net), w)"
  by (simp add: make_temp_dir_def)

lemma make_temp_dir_Inr:
  assumes "make_temp_dir env net w = (Inr d, w1)"
  shows "d = dir env net \<and> dir env net \<in> paths w1 \<and> invocations w1 = invocations w \<and>
         paths w1 = insert (dir env net) (paths w)"
  using assms by (auto simp: make_temp_dir_def mkdir_def split: if_splits)

lemma make_temp_dir_Inl:
  assumes "make_temp_dir env net w = (Inl e, w1)"
  shows "e = FileNotFoundError \<and> w1 = w \<and> dir env net \<notin> paths w \<and>
         dirname (dir env net) \<notin> paths w"
  using assms by (auto simp: make_temp_dir_def mkdir_def split: if_splits)

lemma make_temp_dir_parent:
  "dir env net \<notin> paths w \<Longrightarrow> dirname (dir env net) \<in> paths w \<Longrightarrow>
   make_temp_dir env net w = (Inr (dir env net), w\<lparr>paths := insert (dir env net) (paths w)\<rparr>)"
  by (simp add: make_temp_dir_def mkdir_def)

lemma make_temp_dir_again:
  "make_temp_dir env net w = (Inr d, w1) \<Longrightarrow> make_temp_dir env net w1 = (Inr d, w1)"
  using make_temp_dir_Inr [of env net w d w1] by (simp add: make_temp_dir_exists)

lemma unlink_existing_eq: "unlink_existing fs w = w\<lparr>paths := paths w - set fs\<rparr>"
proof (induction fs arbitrary: w)
  case Nil
  then show ?case by simp
next
  case (Cons f fs)
  have "paths w - {f} - set fs = paths w - insert f (set fs)" by auto
  moreover have "f \<notin> paths w \<Longrightarrow> paths w - set fs = paths w - insert f (set fs)" by auto
  ultimately show ?case using Cons.IH by simp
qed

lemma output_paths_eq: "output_paths p = [p @ ''.crt'', p @ ''.key'', p @ ''.png'']"
  by (simp add: output_paths_def)

lemma outputs_exist_after_unlink:
  "fs \<noteq> [] \<Longrightarrow> \<not> outputs_exist fs e (w\<lparr>paths := paths w - set fs\<rparr>)"
  by (cases e; cases fs) (simp_all add: list_ex_iff)

lemma artifact_state_Complete: "artifact_state fs w = Complete \<longleftrightarrow> outputs_exist fs All w"
  by (simp add: artifact_state_def)

lemma artifact_state_Partial:
  "artifact_state fs w = Partial \<longleftrightarrow> \<not> outputs_exist fs All w \<and> outputs_exist fs Any w"
  by (simp add: artifact_state_def)

lemma artifact_state_Absent:
  "fs \<noteq> [] \<Longrightarrow> artifact_state fs w = Absent \<longleftrightarrow> \<not> outputs_exist fs Any w"
  by (cases fs) (auto simp: artifact_state_def list_all_iff list_ex_iff)

lemma ca_outputs_nonempty: "ca_outputs env net \<noteq> []"
  by (simp add: ca_outputs_def output_paths_eq)

lemma node_outputs_nonempty: "node_outputs env net node \<noteq> []"
  by (simp add: node_outputs_def output_paths_eq)

lemma absent_not_all: "fs \<noteq> [] \<Longrightarrow> \<not> outputs_exist fs Any w \<Longrightarrow> \<not> outputs_exist fs All w"
  by (cases fs) (auto simp: list_all_iff list_ex_iff)

lemma dir_not_output: "dir env net \<notin> set (output_paths (dir env net @ rest))"
  by (simp add: output_paths_eq)

lemma dir_not_ca_output: "dir env net \<notin> set (ca_outputs env net)"
  using dir_not_output [of env net] by (simp add: ca_outputs_def ca_cert_prefix_def)

lemma dir_not_node_output: "dir env net \<notin> set (node_outputs env net r)"
  using dir_not_output [of env net] by (simp add: node_outputs_def node_cert_prefix_def)

lemma artifact_state_make_temp_dir:
  assumes "make_temp_dir env net w = (Inr d, w1)" and "dir env net \<notin> set fs"
  shows "artifact_state fs w1 = artifact_state fs w"
proof -
  from make_temp_dir_Inr [OF assms(1)] have "paths w1 = insert (dir env net) (paths w)" by simp
  with assms(2) show ?thesis
    by (auto simp: artifact_state_def list_all_iff list_ex_iff)
qed

lemma network_cert_mkdir_fails:
  "make_temp_dir env net w = (Inl e, w1) \<Longrightarrow> network_cert env net overwrite w = (Inl e, w1)"
  by (simp add: network_cert_def)

lemma network_cert_after_mkdir:
  "make_temp_dir env net w = (Inr d, w1) \<Longrightarrow>
   network_cert env net overwrite w = network_cert env net overwrite w1"
  using make_temp_dir_again [of env net w d w1] by (simp add: network_cert_def)

lemma network_cert_Complete:
  assumes "network net = Inr nw" "dir env net \<in> paths w"
    and "artifact_state (ca_outputs env net) w = Complete"
  shows "network_cert env net False w = (Inr (), w)"
  using assms
  by (simp add: network_cert_def make_temp_dir_exists ca_outputs_exist_def artifact_state_Complete)

lemma network_cert_Partial:
  assumes "network net = Inr nw" "dir env net \<in> paths w"
    and "artifact_state (ca_outputs env net) w = Partial"
  shows "network_cert env net False w =
           (Inl (ValueError (''Missing some of the following files: '' @ str_list env (ca_outputs env net))), w)"
  using assms
  by (simp add: network_cert_def make_temp_dir_exists ca_outputs_exist_def artifact_state_Partial)

lemma network_cert_Absent:
  assumes "network net = Inr nw" "dir env net \<in> paths w"
    and "artifact_state (ca_outputs env net) w = Absent"
  shows "network_cert env net False w = containers_run env (ca_call env net nw) w"
  using assms absent_not_all [OF ca_outputs_nonempty, of env net w]
  by (simp add: network_cert_def make_temp_dir_exists ca_outputs_exist_def
      artifact_state_Absent [OF ca_outputs_nonempty])

lemma network_cert_overwrite:
  assumes "network net = Inr nw" "dir env net \<in> paths w"
  shows "network_cert env net True w =
           containers_run env (ca_call env net nw) (w\<lparr>paths := paths w - set (ca_outputs env net)\<rparr>)"
  using assms outputs_exist_after_unlink [OF ca_outputs_nonempty, of env net _ w]
  by (simp add: network_cert_def make_temp_dir_exists ca_outputs_exist_def
      ca_outputs_rm_exist_def unlink_existing_eq Let_def del: outputs_exist.simps)

lemma sign_node_mkdir_fails:
  "make_temp_dir env net w = (Inl e, w1) \<Longrightarrow> sign_node env net node overwrite w = (Inl e, w1)"
  by (simp add: sign_node_def)

lemma sign_node_steps:
  "make_temp_dir env net w = (Inr d, w1) \<Longrightarrow>
   sign_node env net node overwrite w =
     (case network_cert env net False w1 of
        (Inl e, w2) \<Rightarrow> (Inl e, w2)
      | (Inr u, w2) \<Rightarrow> node_step env net node overwrite w2)"
  by (simp add: sign_node_def node_step_def Let_def split: prod.splits sum.splits)

lemma sign_node_steps_dir:
  "dir env net \<in> paths w \<Longrightarrow>
   sign_node env net node overwrite w =
     (case network_cert env net False w of
        (Inl e, w2) \<Rightarrow> (Inl e, w2)
      | (Inr u, w2) \<Rightarrow> node_step env net node overwrite w2)"
  by (rule sign_node_steps [OF make_temp_dir_exists])

lemma node_step_Complete:
  assumes "artifact_state (node_outputs env net (ByNode node)) w2 = Complete"
  shows "node_step env net node False w2 = (Inr (), w2)"
  using assms
  by (simp add: node_step_def node_outputs_exist_def artifact_state_Complete Let_def
      del: outputs_exist.simps)

lemma node_step_Partial:
  assumes "artifact_state (node_outputs env net (ByNode node)) w2 = Partial"
  shows "node_step env net node False w2 =
     (Inl (ValueError (''Missing some of the following files: '' @ node_outputs env net (ByNode node) ! 0
         @ '', '' @ node_outputs env net (ByNode node) ! 1 @ '', and '' @ node_outputs env net (ByNode node) ! 2)), w2)"
  using assms
  by (simp add: node_step_def node_outputs_exist_def artifact_state_Partial Let_def
      del: outputs_exist.simps)

lemma node_step_Absent:
  assumes "artifact_state (node_outputs env net (ByNode node)) w2 = Absent"
  shows "node_step env net node False w2 = containers_run env (sign_call env net node) w2"
  using assms absent_not_all [OF node_outputs_nonempty, of env net "ByNode node" w2]
  by (simp add: node_step_def node_outputs_exist_def artifact_state_Absent [OF node_outputs_nonempty]
      Let_def del: outputs_exist.simps)

lemma node_step_overwrite:
  "node_step env net node True w2 =
     containers_run env (sign_call env net node)
       (w2\<lparr>paths := paths w2 - set (node_outputs env net (ByNode node))\<rparr>)"
  using outputs_exist_after_unlink [OF node_outputs_nonempty, of env net "ByNode node" _ w2]
  by (simp add: node_step_def node_outputs_exist_def node_outputs_rm_exist_def unlink_existing_eq
      Let_def del: outputs_exist.simps)

lemma sign_node_after_authority:
  assumes "network net = Inr nw" "dir env net \<in> paths w"
    and "artifact_state (ca_outputs env net) w = Complete"
  shows "sign_node env net node overwrite w = node_step env net node overwrite w"
  by (simp add: sign_node_steps_dir [OF assms(2)] network_cert_Complete [OF assms])

lemma sign_node_Complete:
  assumes "network net = Inr nw" "dir env net \<in> paths w"
    and "artifact_state (ca_outputs env net) w = Complete"
    and "artifact_state (node_outputs env net (ByNode node)) w = Complete"
  shows "sign_node env net node False w = (Inr (), w)"
  by (simp add: sign_node_after_authority [OF assms(1-3)] node_step_Complete [OF assms(4)])

lemma sign_node_Partial:
  assumes "network net = Inr nw" "dir env net \<in> paths w"
    and "artifact_state (ca_outputs env net) w = Complete"
    and "artifact_state (node_outputs env net (ByNode node)) w = Partial"
  shows "sign_node env net node False w =
     (Inl (ValueError (''Missing some of the following files: '' @ node_outputs env net (ByNode node) ! 0
         @ '', '' @ node_outputs env net (ByNode node) ! 1 @ '', and '' @ node_outputs env net (ByNode node) ! 2)), w)"
  by (simp add: sign_node_after_authority [OF assms(1-3)] node_step_Partial [OF assms(4)])

lemma sign_node_Absent:
  assumes "network net = Inr nw" "dir env net \<in> paths w"
    and "artifact_state (ca_outputs env net) w = Complete"
    and "artifact_state (node_outputs env net (ByNode node)) w = Absent"
  shows "sign_node env net node False w = containers_run env (sign_call env net node) w"
  by (simp add: sign_node_after_authority [OF assms(1-3)] node_step_Absent [OF assms(4)])

lemma sign_node_overwrite:
  assumes "network net = Inr nw" "dir env net \<in> paths w"
    and "artifact_state (ca_outputs env net) w = Complete"
  shows "sign_node env net node True w =
     containers_run env (sign_call env net node)
       (w\<lparr>paths := paths w - set (node_outputs env net (ByNode node))\<rparr>)"
  by (simp add: sign_node_after_authority [OF assms(1-3)] node_step_overwrite)

lemma containers_run_fst: "fst (containers_run env c w) = fst (signing_process env c (paths w))"
  by (simp add: containers_run_def split: prod.splits)

lemma containers_run_paths: "paths (snd (containers_run env c w)) = snd (signing_process env c (paths w))"
  by (simp add: containers_run_def split: prod.splits)

lemma containers_run_invocations:
  "invocations (snd (containers_run env c w)) = invocations w @ [(c, paths w)]"
  by (simp add: containers_run_def split: prod.splits)

lemma containers_run_eq:
  "signing_process env c (paths w) = (r, ps) \<Longrightarrow>
   containers_run env c w = (r, \<lparr>paths = ps, invocations = invocations w @ [(c, paths w)]\<rparr>)"
  by (simp add: containers_run_def)

subsection \<open>The example setting, evaluated\<close>

lemma example_env_process [simp]: "signing_process (example_env p) = p"
  by (simp add: example_env_def)

lemma io_network_block: "network io_network = Inr (167772160, 30)"
  by (simp add: network_def io_network_def)

lemma io_dir: "dir (example_env p) io_network = ''/w/CA''"
  by (simp add: dir_def example_env_def io_network_def)

lemma io_dirname: "dirname ''/w/CA'' = ''/w''"
  by (simp add: dirname_def)

lemma io_ca_cert_prefix: "ca_cert_prefix (example_env p) io_network = ''/w/CA/CA_10.0.0.0_30''"
  by (simp add: ca_cert_prefix_def io_dir) (simp add: io_network_def str_ip_def str_nat.simps digit_char_def)

lemma io_ca_outputs: "ca_outputs (example_env p) io_network = ca_files"
  by (simp add: ca_outputs_def io_ca_cert_prefix output_paths_eq ca_files_def)

lemma io_node_outputs: "node_outputs (example_env p) io_network (ByNode io_node) = node_files"
  by (simp add: node_outputs_def node_cert_prefix_def io_dir output_paths_eq node_files_def)
     (simp add: io_node_def NebulaNode_default_def)

lemma io_node_prefix: "node_cert_prefix (example_env p) io_network (ByNode io_node) = ''/w/CA/A''"
  by (simp add: node_cert_prefix_def io_dir) (simp add: io_node_def NebulaNode_default_def)

lemma io_ca_command:
  "dc_command (ca_call (example_env p) io_network (167772160, 30)) =
     ''ca -name CA -ips 10.0.0.0/30 -out-key /w/CA/CA_10.0.0.0_30.key -out-crt /w/CA/CA_10.0.0.0_30.crt -out-qr /w/CA/CA_10.0.0.0_30.png''"
  by (simp add: ca_call_def io_ca_cert_prefix Let_def)
     (simp add: io_network_def str_ip_def str_nat.simps digit_char_def)

lemma io_ca_entrypoint: "dc_entrypoint (ca_call env net nw) = ''/nebula-cert''"
  by (simp add: ca_call_def Let_def)

lemma io_sign_command:
  "dc_command (sign_call (example_env p) io_network io_node) =
     ''sign -name A -ip 10.0.0.1/30 -ca-crt /w/CA/CA_10.0.0.0_30.crt -ca-key /w/CA/CA_10.0.0.0_30.key -out-crt /w/CA/A.crt -out-key /w/CA/A.key -out-qr /w/CA/A.png''"
  by (simp add: sign_call_def io_ca_cert_prefix io_node_outputs Let_def node_files_def)
     (simp add: io_network_def io_node_def NebulaNode_default_def str_ip_option_def str_ip_def str_nat.simps digit_char_def)

lemma state_evals:
  "artifact_state fs (world_of ps) =
     (if list_all (\<lambda>f. f \<in> set ps) fs then Complete
      else if list_ex (\<lambda>f. f \<in> set ps) fs then Partial else Absent)"
  by (simp add: artifact_state_def world_of_def)

lemma writing_process_ca:
  "writing_process (ca_call (example_env p) io_network (167772160, 30)) ps = (Inr (), ps \<union> set ca_files)"
  by (simp add: writing_process_def io_ca_command io_ca_entrypoint)

lemma writing_process_sign:
  "writing_process (sign_call (example_env p) io_network io_node) ps = (Inr (), ps \<union> set node_files)"
  by (simp add: writing_process_def io_sign_command)

lemma failing_process_ca:
  "failing_process (ca_call (example_env p) io_network (167772160, 30)) ps =
     (Inl (ProcessError ''exit status 1''), insert ''/w/CA/CA_10.0.0.0_30.crt'' ps)"
  by (simp add: failing_process_def io_ca_command)

lemma failing_process_sign:
  "failing_process (sign_call (example_env p) io_network io_node) ps =
     (Inl (ProcessError ''exit status 1''), insert ''/w/CA/A.crt'' ps)"
  by (simp add: failing_process_def io_sign_command)

lemma node_failing_process_ca:
  "node_failing_process (ca_call (example_env p) io_network (167772160, 30)) ps = (Inr (), ps \<union> set ca_files)"
  by (simp add: node_failing_process_def io_ca_command)

lemma node_failing_process_sign:
  "node_failing_process (sign_call (example_env p) io_network io_node) ps =
     (Inl (ProcessError ''exit status 1''), insert ''/w/CA/A.crt'' ps)"
  by (simp add: node_failing_process_def io_sign_command)

subsection \<open>The Partial state\<close>

text \<open>
  Claim C3, as the code has it, for a set whose output directory exists. On a
  Partial authority set, \<open>network_cert\<close> without overwrite, and \<open>sign_node\<close> for any
  node and either flag, raise \<open>ValueError\<close> with the printed list of all three
  authority paths and leave the world as it was. \<open>sign_node\<close> raises whatever
  exception its authority step raises. When the authority step returns and the
  node's set is Partial in the world the step left, \<open>sign_node\<close> without overwrite
  raises \<open>ValueError\<close> with a message that names all three node paths, the existing
  ones too, and leaves that world as it is; with the authority's set Complete that
  world is the one the request started in. On an Absent authority set the step is
  the authority's container run. With overwrite, the set's files are unlinked and
  the container is run: for the authority's request in any state, for a node's
  request when the authority's set is Complete.
\<close>

theorem partial_state_raises:
  assumes "network net = Inr nw" and "dir env net \<in> paths w"
  shows "(artifact_state (ca_outputs env net) w = Partial \<longrightarrow>
            network_cert env net False w =
              (Inl (ValueError (''Missing some of the following files: '' @
                 str_list env [ca_cert_prefix env net @ ''.crt'', ca_cert_prefix env net @ ''.key'',
                               ca_cert_prefix env net @ ''.png''])), w) \<and>
            sign_node env net node overwrite w =
              (Inl (ValueError (''Missing some of the following files: '' @
                 str_list env [ca_cert_prefix env net @ ''.crt'', ca_cert_prefix env net @ ''.key'',
                               ca_cert_prefix env net @ ''.png''])), w)) \<and>
         (artifact_state (ca_outputs env net) w = Complete \<and>
          artifact_state (node_outputs env net (ByNode node)) w = Partial \<longrightarrow>
            sign_node env net node False w =
              (Inl (ValueError (''Missing some of the following files: '' @
                 node_cert_prefix env net (ByNode node) @ ''.crt, '' @
                 node_cert_prefix env net (ByNode node) @ ''.key, and '' @
                 node_cert_prefix env net (ByNode node) @ ''.png'')), w)) \<and>
         (\<forall>e w2. network_cert env net False w = (Inl e, w2) \<longrightarrow>
            sign_node env net node overwrite w = (Inl e, w2)) \<and>
         (\<forall>w2. network_cert env net False w = (Inr (), w2) \<and>
               artifact_state (node_outputs env net (ByNode node)) w2 = Partial \<longrightarrow>
            sign_node env net node False w =
              (Inl (ValueError (''Missing some of the following files: '' @
                 node_cert_prefix env net (ByNode node) @ ''.crt, '' @
                 node_cert_prefix env net (ByNode node) @ ''.key, and '' @
                 node_cert_prefix env net (ByNode node) @ ''.png'')), w2)) \<and>
         (artifact_state (ca_outputs env net) w = Absent \<longrightarrow>
            network_cert env net False w = containers_run env (ca_call env net nw) w) \<and>
         network_cert env net True w =
           containers_run env (ca_call env net nw) (w\<lparr>paths := paths w - set (ca_outputs env net)\<rparr>) \<and>
         (artifact_state (ca_outputs env net) w = Complete \<longrightarrow>
            sign_node env net node True w =
              containers_run env (sign_call env net node)
                (w\<lparr>paths := paths w - set (node_outputs env net (ByNode node))\<rparr>))"
proof -
  let ?camsg = "''Missing some of the following files: '' @
                 str_list env [ca_cert_prefix env net @ ''.crt'', ca_cert_prefix env net @ ''.key'',
                               ca_cert_prefix env net @ ''.png'']"
  let ?nmsg = "''Missing some of the following files: '' @
                 node_cert_prefix env net (ByNode node) @ ''.crt, '' @
                 node_cert_prefix env net (ByNode node) @ ''.key, and '' @
                 node_cert_prefix env net (ByNode node) @ ''.png''"
  note steps = sign_node_steps_dir [OF assms(2), of node]
  have fail: "sign_node env net node overwrite w = (Inl e, w2)"
    if "network_cert env net False w = (Inl e, w2)" for e w2
    using that by (simp add: steps)
  have nmsg: "node_step env net node False w2 = (Inl (ValueError ?nmsg), w2)"
    if "artifact_state (node_outputs env net (ByNode node)) w2 = Partial" for w2
    using node_step_Partial [OF that] by (simp add: node_outputs_def output_paths_eq)
  have c1: "network_cert env net False w = (Inl (ValueError ?camsg), w)"
    if "artifact_state (ca_outputs env net) w = Partial"
    using network_cert_Partial [OF assms that] by (simp add: ca_outputs_def output_paths_eq)
  have c2: "sign_node env net node False w = (Inl (ValueError ?nmsg), w2)"
    if "network_cert env net False w = (Inr (), w2)"
      "artifact_state (node_outputs env net (ByNode node)) w2 = Partial" for w2
    using that(1) nmsg [OF that(2)] by (simp add: steps)
  have c3: "sign_node env net node False w = (Inl (ValueError ?nmsg), w)"
    if "artifact_state (ca_outputs env net) w = Complete"
      "artifact_state (node_outputs env net (ByNode node)) w = Partial"
    using c2 [OF network_cert_Complete [OF assms that(1)] that(2)] .
  show ?thesis
    using c1 fail c2 c3 network_cert_Absent [OF assms] network_cert_overwrite [OF assms]
      sign_node_overwrite [OF assms, of node]
    by blast
qed

text \<open>
  An authority set with only its key; a node set with only its QR image beside a
  Complete authority set, without and with overwrite; and a node set with only its
  certificate beside an Absent authority set, where the authority's container runs
  before the node's message is raised, or fails, and its failure is the request's.
\<close>

theorem partial_state_raises_witness:
  "network io_network = Inr (167772160, 30) \<and>
   dir (example_env writing_process) io_network \<in> paths (world_of [''/w/CA'', ''/w/CA/CA_10.0.0.0_30.key'']) \<and>
   artifact_state (ca_outputs (example_env writing_process) io_network)
      (world_of [''/w/CA'', ''/w/CA/CA_10.0.0.0_30.key'']) = Partial \<and>
   network_cert (example_env writing_process) io_network False (world_of [''/w/CA'', ''/w/CA/CA_10.0.0.0_30.key'']) =
     (Inl (ValueError (''Missing some of the following files: '' @
        ''['' @ [CHR 0x27] @ ''/w/CA/CA_10.0.0.0_30.crt'' @ [CHR 0x27] @ '', '' @
        [CHR 0x27] @ ''/w/CA/CA_10.0.0.0_30.key'' @ [CHR 0x27] @ '', '' @
        [CHR 0x27] @ ''/w/CA/CA_10.0.0.0_30.png'' @ [CHR 0x27] @ '']'')),
      world_of [''/w/CA'', ''/w/CA/CA_10.0.0.0_30.key'']) \<and>
   sign_node (example_env writing_process) io_network io_node True (world_of [''/w/CA'', ''/w/CA/CA_10.0.0.0_30.key'']) =
     (Inl (ValueError (''Missing some of the following files: '' @
        ''['' @ [CHR 0x27] @ ''/w/CA/CA_10.0.0.0_30.crt'' @ [CHR 0x27] @ '', '' @
        [CHR 0x27] @ ''/w/CA/CA_10.0.0.0_30.key'' @ [CHR 0x27] @ '', '' @
        [CHR 0x27] @ ''/w/CA/CA_10.0.0.0_30.png'' @ [CHR 0x27] @ '']'')),
      world_of [''/w/CA'', ''/w/CA/CA_10.0.0.0_30.key'']) \<and>
   dir (example_env writing_process) io_network \<in> paths (world_of (''/w/CA'' # ''/w/CA/A.png'' # ca_files)) \<and>
   artifact_state (ca_outputs (example_env writing_process) io_network)
      (world_of (''/w/CA'' # ''/w/CA/A.png'' # ca_files)) = Complete \<and>
   artifact_state (node_outputs (example_env writing_process) io_network (ByNode io_node))
      (world_of (''/w/CA'' # ''/w/CA/A.png'' # ca_files)) = Partial \<and>
   sign_node (example_env writing_process) io_network io_node False (world_of (''/w/CA'' # ''/w/CA/A.png'' # ca_files)) =
     (Inl (ValueError ''Missing some of the following files: /w/CA/A.crt, /w/CA/A.key, and /w/CA/A.png''),
      world_of (''/w/CA'' # ''/w/CA/A.png'' # ca_files)) \<and>
   sign_node (example_env writing_process) io_network io_node True (world_of (''/w/CA'' # ''/w/CA/A.png'' # ca_files)) =
     containers_run (example_env writing_process) (sign_call (example_env writing_process) io_network io_node)
       (world_of (''/w/CA'' # ca_files)) \<and>
   artifact_state (ca_outputs (example_env writing_process) io_network) (world_of [''/w/CA'', ''/w/CA/A.crt'']) = Absent \<and>
   sign_node (example_env writing_process) io_network io_node False (world_of [''/w/CA'', ''/w/CA/A.crt'']) =
     (Inl (ValueError ''Missing some of the following files: /w/CA/A.crt, /w/CA/A.key, and /w/CA/A.png''),
      \<lparr>paths = {''/w/CA'', ''/w/CA/A.crt''} \<union> set ca_files,
       invocations = [(ca_call (example_env writing_process) io_network (167772160, 30),
                       {''/w/CA'', ''/w/CA/A.crt''})]\<rparr>) \<and>
   artifact_state (ca_outputs (example_env failing_process) io_network) (world_of [''/w/CA'', ''/w/CA/A.crt'']) = Absent \<and>
   sign_node (example_env failing_process) io_network io_node False (world_of [''/w/CA'', ''/w/CA/A.crt'']) =
     (Inl (ProcessError ''exit status 1''),
      \<lparr>paths = {''/w/CA/CA_10.0.0.0_30.crt'', ''/w/CA'', ''/w/CA/A.crt''},
       invocations = [(ca_call (example_env failing_process) io_network (167772160, 30),
                       {''/w/CA'', ''/w/CA/A.crt''})]\<rparr>)"
proof -
  let ?env = "example_env writing_process"
  let ?envf = "example_env failing_process"
  let ?w1 = "world_of [''/w/CA'', ''/w/CA/CA_10.0.0.0_30.key'']"
  let ?w2 = "world_of (''/w/CA'' # ''/w/CA/A.png'' # ca_files)"
  let ?w3 = "world_of [''/w/CA'', ''/w/CA/A.crt'']"
  let ?w4 = "\<lparr>paths = {''/w/CA'', ''/w/CA/A.crt''} \<union> set ca_files,
       invocations = [(ca_call ?env io_network (167772160, 30), {''/w/CA'', ''/w/CA/A.crt''})]\<rparr>"
  have d1: "dir ?env io_network \<in> paths ?w1" by (simp add: io_dir world_of_def)
  have d2: "dir ?env io_network \<in> paths ?w2" by (simp add: io_dir world_of_def)
  have d3: "dir ?env io_network \<in> paths ?w3" by (simp add: io_dir world_of_def)
  have s1: "artifact_state (ca_outputs ?env io_network) ?w1 = Partial"
    by (simp add: io_ca_outputs state_evals ca_files_def)
  have s2: "artifact_state (ca_outputs ?env io_network) ?w2 = Complete"
    by (simp add: io_ca_outputs state_evals ca_files_def)
  have s3: "artifact_state (node_outputs ?env io_network (ByNode io_node)) ?w2 = Partial"
    by (simp add: io_node_outputs state_evals ca_files_def node_files_def)
  have s4: "artifact_state (ca_outputs ?env io_network) ?w3 = Absent"
    by (simp add: io_ca_outputs state_evals ca_files_def)
  have s5: "artifact_state (node_outputs ?env io_network (ByNode io_node)) ?w4 = Partial"
    by (simp add: io_node_outputs artifact_state_def ca_files_def node_files_def)
  note t1 = partial_state_raises [OF io_network_block d1, of io_node True]
  note t2 = partial_state_raises [OF io_network_block d2, of io_node False]
  note t3 = partial_state_raises [OF io_network_block d3, of io_node False]
  from t1 s1
  have r1: "network_cert ?env io_network False ?w1 =
     (Inl (ValueError (''Missing some of the following files: '' @
        ''['' @ [CHR 0x27] @ ''/w/CA/CA_10.0.0.0_30.crt'' @ [CHR 0x27] @ '', '' @
        [CHR 0x27] @ ''/w/CA/CA_10.0.0.0_30.key'' @ [CHR 0x27] @ '', '' @
        [CHR 0x27] @ ''/w/CA/CA_10.0.0.0_30.png'' @ [CHR 0x27] @ '']'')), ?w1)"
    by (simp add: io_ca_cert_prefix str_list_def) (simp add: example_env_def)
  from t1 s1
  have r1': "sign_node ?env io_network io_node True ?w1 =
     (Inl (ValueError (''Missing some of the following files: '' @
        ''['' @ [CHR 0x27] @ ''/w/CA/CA_10.0.0.0_30.crt'' @ [CHR 0x27] @ '', '' @
        [CHR 0x27] @ ''/w/CA/CA_10.0.0.0_30.key'' @ [CHR 0x27] @ '', '' @
        [CHR 0x27] @ ''/w/CA/CA_10.0.0.0_30.png'' @ [CHR 0x27] @ '']'')), ?w1)"
    by (simp add: io_ca_cert_prefix str_list_def) (simp add: example_env_def)
  from t2 s2 s3
  have r2: "sign_node ?env io_network io_node False ?w2 =
     (Inl (ValueError ''Missing some of the following files: /w/CA/A.crt, /w/CA/A.key, and /w/CA/A.png''), ?w2)"
    by (simp add: io_node_prefix)
  have less: "?w2\<lparr>paths := paths ?w2 - set (node_outputs ?env io_network (ByNode io_node))\<rparr> =
                world_of (''/w/CA'' # ca_files)"
    by (simp add: io_node_outputs world_of_def node_files_def ca_files_def) auto
  from partial_state_raises [OF io_network_block d2, of io_node True] s2
  have "sign_node ?env io_network io_node True ?w2 =
     containers_run ?env (sign_call ?env io_network io_node)
       (?w2\<lparr>paths := paths ?w2 - set (node_outputs ?env io_network (ByNode io_node))\<rparr>)"
    by blast
  then have r2': "sign_node ?env io_network io_node True ?w2 =
     containers_run ?env (sign_call ?env io_network io_node) (world_of (''/w/CA'' # ca_files))"
    unfolding less .
  have "signing_process ?env (ca_call ?env io_network (167772160, 30)) (paths ?w3) =
          (Inr (), {''/w/CA'', ''/w/CA/A.crt''} \<union> set ca_files)"
    by (simp add: writing_process_ca world_of_def)
  from containers_run_eq [OF this]
  have run: "containers_run ?env (ca_call ?env io_network (167772160, 30)) ?w3 = (Inr (), ?w4)"
    by (simp add: world_of_def)
  from t3 s4 have "network_cert ?env io_network False ?w3 =
      containers_run ?env (ca_call ?env io_network (167772160, 30)) ?w3" by blast
  with run have nc: "network_cert ?env io_network False ?w3 = (Inr (), ?w4)" by simp
  from t3 nc s5
  have "sign_node ?env io_network io_node False ?w3 =
     (Inl (ValueError (''Missing some of the following files: '' @
                 node_cert_prefix ?env io_network (ByNode io_node) @ ''.crt, '' @
                 node_cert_prefix ?env io_network (ByNode io_node) @ ''.key, and '' @
                 node_cert_prefix ?env io_network (ByNode io_node) @ ''.png'')), ?w4)"
    by blast
  then have r3: "sign_node ?env io_network io_node False ?w3 =
     (Inl (ValueError ''Missing some of the following files: /w/CA/A.crt, /w/CA/A.key, and /w/CA/A.png''), ?w4)"
    by (simp add: io_node_prefix)
  let ?w5 = "\<lparr>paths = {''/w/CA/CA_10.0.0.0_30.crt'', ''/w/CA'', ''/w/CA/A.crt''},
       invocations = [(ca_call ?envf io_network (167772160, 30), {''/w/CA'', ''/w/CA/A.crt''})]\<rparr>"
  have d3f: "dir ?envf io_network \<in> paths ?w3" by (simp add: io_dir world_of_def)
  have s4f: "artifact_state (ca_outputs ?envf io_network) ?w3 = Absent"
    by (simp add: io_ca_outputs state_evals ca_files_def)
  note t4 = partial_state_raises [OF io_network_block d3f, of io_node False]
  have "signing_process ?envf (ca_call ?envf io_network (167772160, 30)) (paths ?w3) =
          (Inl (ProcessError ''exit status 1''), {''/w/CA/CA_10.0.0.0_30.crt'', ''/w/CA'', ''/w/CA/A.crt''})"
    by (simp add: failing_process_ca world_of_def)
  from containers_run_eq [OF this]
  have runf: "containers_run ?envf (ca_call ?envf io_network (167772160, 30)) ?w3 =
      (Inl (ProcessError ''exit status 1''), ?w5)"
    by (simp add: world_of_def)
  from t4 s4f have "network_cert ?envf io_network False ?w3 =
      containers_run ?envf (ca_call ?envf io_network (167772160, 30)) ?w3" by blast
  with runf have ncf: "network_cert ?envf io_network False ?w3 = (Inl (ProcessError ''exit status 1''), ?w5)"
    by simp
  from t4 ncf have r4: "sign_node ?envf io_network io_node False ?w3 =
      (Inl (ProcessError ''exit status 1''), ?w5)"
    by blast
  show ?thesis using io_network_block d1 d2 s1 s2 s3 s4 r1 r1' r2 r2' r3 s4f r4 by blast
qed

text \<open>
  Node A has its certificate file and nothing else. Without overwrite the message
  names \<open>/w/CA/A.crt\<close>, which exists. With overwrite the request succeeds: the
  existing file is unlinked and the signing container runs. And when the authority
  set is Absent, the request runs the authority's container, which writes the
  authority's files, before it raises for the node.
\<close>

theorem partial_state_message_counterexample:
  "artifact_state (node_outputs (example_env writing_process) io_network (ByNode io_node))
      (world_of (''/w/CA'' # ''/w/CA/A.crt'' # ca_files)) = Partial \<and>
   sign_node (example_env writing_process) io_network io_node False (world_of (''/w/CA'' # ''/w/CA/A.crt'' # ca_files)) =
     (Inl (ValueError ''Missing some of the following files: /w/CA/A.crt, /w/CA/A.key, and /w/CA/A.png''),
      world_of (''/w/CA'' # ''/w/CA/A.crt'' # ca_files)) \<and>
   ''/w/CA/A.crt'' \<in> paths (world_of (''/w/CA'' # ''/w/CA/A.crt'' # ca_files)) \<and>
   fst (sign_node (example_env writing_process) io_network io_node True (world_of (''/w/CA'' # ''/w/CA/A.crt'' # ca_files))) = Inr () \<and>
   invocations (snd (sign_node (example_env writing_process) io_network io_node True (world_of (''/w/CA'' # ''/w/CA/A.crt'' # ca_files)))) =
     [(sign_call (example_env writing_process) io_network io_node, set (''/w/CA'' # ca_files))] \<and>
   artifact_state (node_outputs (example_env writing_process) io_network (ByNode io_node))
      (world_of [''/w/CA'', ''/w/CA/A.crt'']) = Partial \<and>
   map fst (invocations (snd (sign_node (example_env writing_process) io_network io_node False (world_of [''/w/CA'', ''/w/CA/A.crt''])))) =
     [ca_call (example_env writing_process) io_network (167772160, 30)] \<and>
   set ca_files \<subseteq> paths (snd (sign_node (example_env writing_process) io_network io_node False (world_of [''/w/CA'', ''/w/CA/A.crt''])))"
proof -
  let ?env = "example_env writing_process"
  let ?w = "world_of (''/w/CA'' # ''/w/CA/A.crt'' # ca_files)"
  let ?v = "world_of [''/w/CA'', ''/w/CA/A.crt'']"
  let ?v2 = "\<lparr>paths = {''/w/CA'', ''/w/CA/A.crt''} \<union> set ca_files,
       invocations = [(ca_call ?env io_network (167772160, 30), {''/w/CA'', ''/w/CA/A.crt''})]\<rparr>"
  have d: "dir ?env io_network \<in> paths ?w" by (simp add: io_dir world_of_def)
  have c: "artifact_state (ca_outputs ?env io_network) ?w = Complete"
    by (simp add: io_ca_outputs state_evals ca_files_def)
  have p: "artifact_state (node_outputs ?env io_network (ByNode io_node)) ?w = Partial"
    by (simp add: io_node_outputs state_evals ca_files_def node_files_def)
  have r1: "sign_node ?env io_network io_node False ?w =
     (Inl (ValueError ''Missing some of the following files: /w/CA/A.crt, /w/CA/A.key, and /w/CA/A.png''), ?w)"
    using sign_node_Partial [OF io_network_block d c p] by (simp add: io_node_outputs node_files_def)
  have m: "''/w/CA/A.crt'' \<in> paths ?w" by (simp add: world_of_def)
  have less: "paths ?w - set (node_outputs ?env io_network (ByNode io_node)) = set (''/w/CA'' # ca_files)"
    by (simp add: io_node_outputs world_of_def node_files_def ca_files_def) auto
  have r2: "sign_node ?env io_network io_node True ?w =
     containers_run ?env (sign_call ?env io_network io_node) (?w\<lparr>paths := set (''/w/CA'' # ca_files)\<rparr>)"
    using sign_node_overwrite [OF io_network_block d c, of io_node] by (simp only: less)
  have r2a: "fst (sign_node ?env io_network io_node True ?w) = Inr ()"
    by (simp add: r2 containers_run_fst writing_process_def)
  have r2b: "invocations (snd (sign_node ?env io_network io_node True ?w)) =
     [(sign_call ?env io_network io_node, set (''/w/CA'' # ca_files))]"
    by (simp add: r2 containers_run_invocations) (simp add: world_of_def)
  have dv: "dir ?env io_network \<in> paths ?v" by (simp add: io_dir world_of_def)
  have cv: "artifact_state (ca_outputs ?env io_network) ?v = Absent"
    by (simp add: io_ca_outputs state_evals ca_files_def)
  have pv: "artifact_state (node_outputs ?env io_network (ByNode io_node)) ?v = Partial"
    by (simp add: io_node_outputs state_evals node_files_def)
  have "signing_process ?env (ca_call ?env io_network (167772160, 30)) (paths ?v) =
          (Inr (), {''/w/CA'', ''/w/CA/A.crt''} \<union> set ca_files)"
    by (simp add: writing_process_ca world_of_def)
  from containers_run_eq [OF this]
  have run: "containers_run ?env (ca_call ?env io_network (167772160, 30)) ?v = (Inr (), ?v2)"
    by (simp add: world_of_def)
  have pv2: "artifact_state (node_outputs ?env io_network (ByNode io_node)) ?v2 = Partial"
    by (simp add: io_node_outputs artifact_state_def ca_files_def node_files_def)
  have r3: "snd (sign_node ?env io_network io_node False ?v) = ?v2"
    unfolding sign_node_steps_dir [OF dv] network_cert_Absent [OF io_network_block dv cv] run
    using node_step_Partial [OF pv2] by simp
  have r3a: "map fst (invocations (snd (sign_node ?env io_network io_node False ?v))) =
     [ca_call ?env io_network (167772160, 30)]"
    unfolding r3 by simp
  have r3b: "set ca_files \<subseteq> paths (snd (sign_node ?env io_network io_node False ?v))"
    unfolding r3 by auto
  show ?thesis using p r1 m r2a r2b pv r3a r3b by blast
qed

subsection \<open>The Complete state\<close>

lemma artifact_state_after_unlink:
  "fs \<noteq> [] \<Longrightarrow> artifact_state fs (w\<lparr>paths := paths w - set fs\<rparr>) = Absent"
  using outputs_exist_after_unlink [of fs _ w] by (simp add: artifact_state_def del: outputs_exist.simps)

text \<open>
  Claim C4, as the code has it. With the output directory in place: on an authority
  set in the Complete state, \<open>network_cert\<close> without overwrite returns with the world
  unchanged, and with overwrite it is the authority's container run on the world
  without the three files. On a node set in the Complete state whose authority set
  is Complete too, \<open>sign_node\<close> without overwrite returns with the world unchanged,
  and with overwrite it is the node's container run on the world without the
  node's three files. A set without its three files is Absent, and a request on an
  Absent set is that same container run. So a second request without overwrite,
  made in a world where the first left both sets Complete, changes nothing.
\<close>

theorem complete_state_noop_or_overwrite:
  assumes "network net = Inr nw" and "dir env net \<in> paths w"
  shows "(artifact_state (ca_outputs env net) w = Complete \<longrightarrow>
            network_cert env net False w = (Inr (), w) \<and>
            network_cert env net True w =
              containers_run env (ca_call env net nw) (w\<lparr>paths := paths w - set (ca_outputs env net)\<rparr>)) \<and>
         (artifact_state (ca_outputs env net) w = Complete \<and>
          artifact_state (node_outputs env net (ByNode node)) w = Complete \<longrightarrow>
            sign_node env net node False w = (Inr (), w) \<and>
            sign_node env net node True w =
              containers_run env (sign_call env net node)
                (w\<lparr>paths := paths w - set (node_outputs env net (ByNode node))\<rparr>)) \<and>
         artifact_state (ca_outputs env net) (w\<lparr>paths := paths w - set (ca_outputs env net)\<rparr>) = Absent \<and>
         artifact_state (node_outputs env net (ByNode node))
            (w\<lparr>paths := paths w - set (node_outputs env net (ByNode node))\<rparr>) = Absent \<and>
         (artifact_state (ca_outputs env net) w = Absent \<longrightarrow>
            network_cert env net False w = containers_run env (ca_call env net nw) w) \<and>
         (artifact_state (ca_outputs env net) w = Complete \<and>
          artifact_state (node_outputs env net (ByNode node)) w = Absent \<longrightarrow>
            sign_node env net node False w = containers_run env (sign_call env net node) w)"
  using network_cert_Complete [OF assms] network_cert_overwrite [OF assms]
    sign_node_Complete [OF assms, of node] sign_node_overwrite [OF assms, of node]
    network_cert_Absent [OF assms] sign_node_Absent [OF assms, of node]
    artifact_state_after_unlink [OF ca_outputs_nonempty, of env net w]
    artifact_state_after_unlink [OF node_outputs_nonempty, of env net "ByNode node" w]
  by blast

text \<open>
  Issuance twice: from the world with only the output directory and a Complete
  authority set, \<open>sign_node\<close> runs the node's container once; the second request
  finds the set Complete and returns the world of the first.
\<close>

theorem complete_state_noop_or_overwrite_witness:
  "network io_network = Inr (167772160, 30) \<and>
   dir (example_env writing_process) io_network \<in> paths (world_of (''/w/CA'' # ca_files @ node_files)) \<and>
   artifact_state (ca_outputs (example_env writing_process) io_network) (world_of (''/w/CA'' # ca_files @ node_files)) = Complete \<and>
   artifact_state (node_outputs (example_env writing_process) io_network (ByNode io_node))
      (world_of (''/w/CA'' # ca_files @ node_files)) = Complete \<and>
   network_cert (example_env writing_process) io_network False (world_of (''/w/CA'' # ca_files @ node_files)) =
     (Inr (), world_of (''/w/CA'' # ca_files @ node_files)) \<and>
   sign_node (example_env writing_process) io_network io_node False (world_of (''/w/CA'' # ca_files @ node_files)) =
     (Inr (), world_of (''/w/CA'' # ca_files @ node_files)) \<and>
   sign_node (example_env writing_process) io_network io_node True (world_of (''/w/CA'' # ca_files @ node_files)) =
     containers_run (example_env writing_process) (sign_call (example_env writing_process) io_network io_node)
       (world_of (''/w/CA'' # ca_files)) \<and>
   artifact_state (node_outputs (example_env writing_process) io_network (ByNode io_node))
      (world_of (''/w/CA'' # ca_files)) = Absent \<and>
   sign_node (example_env writing_process) io_network io_node False (world_of (''/w/CA'' # ca_files)) =
     containers_run (example_env writing_process) (sign_call (example_env writing_process) io_network io_node)
       (world_of (''/w/CA'' # ca_files)) \<and>
   paths (snd (sign_node (example_env writing_process) io_network io_node False (world_of (''/w/CA'' # ca_files)))) =
     paths (world_of (''/w/CA'' # ca_files @ node_files))"
proof -
  let ?env = "example_env writing_process"
  let ?w = "world_of (''/w/CA'' # ca_files @ node_files)"
  let ?v = "world_of (''/w/CA'' # ca_files)"
  have d: "dir ?env io_network \<in> paths ?w" by (simp add: io_dir world_of_def)
  have dv: "dir ?env io_network \<in> paths ?v" by (simp add: io_dir world_of_def)
  have c: "artifact_state (ca_outputs ?env io_network) ?w = Complete"
    by (simp add: io_ca_outputs state_evals ca_files_def)
  have n: "artifact_state (node_outputs ?env io_network (ByNode io_node)) ?w = Complete"
    by (simp add: io_node_outputs state_evals ca_files_def node_files_def)
  have cv: "artifact_state (ca_outputs ?env io_network) ?v = Complete"
    by (simp add: io_ca_outputs state_evals ca_files_def)
  have nv: "artifact_state (node_outputs ?env io_network (ByNode io_node)) ?v = Absent"
    by (simp add: io_node_outputs state_evals ca_files_def node_files_def)
  have less: "?w\<lparr>paths := paths ?w - set (node_outputs ?env io_network (ByNode io_node))\<rparr> = ?v"
    by (simp add: io_node_outputs world_of_def node_files_def ca_files_def) auto
  note t = complete_state_noop_or_overwrite [OF io_network_block d, of io_node]
  note tv = complete_state_noop_or_overwrite [OF io_network_block dv, of io_node]
  have r1: "network_cert ?env io_network False ?w = (Inr (), ?w)" using t c by blast
  have r2: "sign_node ?env io_network io_node False ?w = (Inr (), ?w)" using t c n by blast
  have r3: "sign_node ?env io_network io_node True ?w =
     containers_run ?env (sign_call ?env io_network io_node) ?v"
    using t c n less by simp
  have r4: "sign_node ?env io_network io_node False ?v =
     containers_run ?env (sign_call ?env io_network io_node) ?v"
    using tv cv nv by blast
  have r5: "paths (snd (sign_node ?env io_network io_node False ?v)) = paths ?w"
    by (simp add: r4 containers_run_paths writing_process_def io_sign_command)
       (auto simp: world_of_def)
  show ?thesis using io_network_block d c n r1 r2 r3 nv r4 r5 by blast
qed

text \<open>
  Node A's set is Complete and the authority's set is Absent: the request without
  overwrite runs the authority's container and the world is not what it was.
\<close>

theorem complete_state_authority_absent_counterexample:
  "artifact_state (node_outputs (example_env writing_process) io_network (ByNode io_node))
      (world_of (''/w/CA'' # node_files)) = Complete \<and>
   fst (sign_node (example_env writing_process) io_network io_node False (world_of (''/w/CA'' # node_files))) = Inr () \<and>
   map fst (invocations (snd (sign_node (example_env writing_process) io_network io_node False (world_of (''/w/CA'' # node_files))))) =
     [ca_call (example_env writing_process) io_network (167772160, 30)] \<and>
   invocations (world_of (''/w/CA'' # node_files)) = []"
proof -
  let ?env = "example_env writing_process"
  let ?v = "world_of (''/w/CA'' # node_files)"
  have dv: "dir ?env io_network \<in> paths ?v" by (simp add: io_dir world_of_def)
  have cv: "artifact_state (ca_outputs ?env io_network) ?v = Absent"
    by (simp add: io_ca_outputs state_evals ca_files_def node_files_def)
  have dv: "dir ?env io_network \<in> paths ?v" by (simp add: io_dir world_of_def)
  have cv: "artifact_state (ca_outputs ?env io_network) ?v = Absent"
    by (simp add: io_ca_outputs state_evals ca_files_def node_files_def)
  have nv: "artifact_state (node_outputs ?env io_network (ByNode io_node)) ?v = Complete"
    by (simp add: io_node_outputs state_evals node_files_def)
  have "signing_process ?env (ca_call ?env io_network (167772160, 30)) (paths ?v) =
          (Inr (), paths ?v \<union> set ca_files)"
    by (simp add: writing_process_ca)
  from containers_run_eq [OF this]
  have run: "containers_run ?env (ca_call ?env io_network (167772160, 30)) ?v =
      (Inr (), \<lparr>paths = paths ?v \<union> set ca_files,
                invocations = [(ca_call ?env io_network (167772160, 30), paths ?v)]\<rparr>)"
    by (simp add: world_of_def)
  have nv2: "artifact_state (node_outputs ?env io_network (ByNode io_node))
      \<lparr>paths = paths ?v \<union> set ca_files,
       invocations = [(ca_call ?env io_network (167772160, 30), paths ?v)]\<rparr> = Complete"
    by (simp add: io_node_outputs artifact_state_def node_files_def world_of_def)
  have r: "sign_node ?env io_network io_node False ?v =
     (Inr (), \<lparr>paths = paths ?v \<union> set ca_files,
       invocations = [(ca_call ?env io_network (167772160, 30), paths ?v)]\<rparr>)"
    unfolding sign_node_steps_dir [OF dv] network_cert_Absent [OF io_network_block dv cv] run
    using node_step_Complete [OF nv2] by simp
  show ?thesis using nv by (simp add: r) (simp add: world_of_def)
qed

subsection \<open>A failing signing process\<close>

lemma network_cert_Absent_any:
  assumes "network net = Inr nw" "dir env net \<in> paths w"
    and "artifact_state (ca_outputs env net) w = Absent"
  shows "network_cert env net overwrite w = containers_run env (ca_call env net nw) w"
proof (cases overwrite)
  case False
  then show ?thesis using network_cert_Absent [OF assms] by simp
next
  case True
  from assms(3) have "\<not> outputs_exist (ca_outputs env net) Any w"
    by (simp add: artifact_state_Absent [OF ca_outputs_nonempty])
  then have "paths w - set (ca_outputs env net) = paths w"
    by (auto simp: list_ex_iff)
  then show ?thesis using True by (simp add: network_cert_overwrite [OF assms(1,2)])
qed

lemma node_step_Absent_any:
  assumes "artifact_state (node_outputs env net (ByNode node)) w2 = Absent"
  shows "node_step env net node overwrite w2 = containers_run env (sign_call env net node) w2"
proof (cases overwrite)
  case False
  then show ?thesis using node_step_Absent [OF assms] by simp
next
  case True
  from assms have "\<not> outputs_exist (node_outputs env net (ByNode node)) Any w2"
    by (simp add: artifact_state_Absent [OF node_outputs_nonempty])
  then have "paths w2 - set (node_outputs env net (ByNode node)) = paths w2"
    by (auto simp: list_ex_iff)
  then show ?thesis using True by (simp add: node_step_overwrite)
qed

text \<open>
  Claim C6, as the code has it. A request first makes the output directory; when
  that fails, the request fails with \<open>FileNotFoundError\<close> and the world is as it was.
  Otherwise, on an Absent authority set the authority step is the container run and
  nothing else: when the process fails, \<open>network_cert\<close> with either flag, and
  \<open>sign_node\<close> for any node and either flag, re-raise its exception unchanged, and
  the paths are exactly those the process left behind. When the authority step returns (at once on a Complete
  set, after a successful run on an Absent one) and the node's set is Absent in the
  world it left, \<open>sign_node\<close> with either flag is the node's container run and nothing
  else: when the process fails, its exception is re-raised unchanged and the paths
  are exactly those the process left behind. The handler
  \<open>except Exception as me: raise me\<close> removes nothing.
\<close>

theorem failed_signing_keeps_files:
  assumes "network net = Inr nw"
  shows "(\<forall>e0 w1. make_temp_dir env net w = (Inl e0, w1) \<longrightarrow>
            e0 = FileNotFoundError \<and> w1 = w \<and>
            network_cert env net ca_overwrite w = (Inl FileNotFoundError, w) \<and>
            sign_node env net node overwrite w = (Inl FileNotFoundError, w)) \<and>
         (\<forall>d w1. make_temp_dir env net w = (Inr d, w1) \<longrightarrow>
            (\<forall>e ps. artifact_state (ca_outputs env net) w = Absent \<and>
                    signing_process env (ca_call env net nw) (paths w1) = (Inl e, ps) \<longrightarrow>
               network_cert env net ca_overwrite w =
                 (Inl e, \<lparr>paths = ps, invocations = invocations w @ [(ca_call env net nw, paths w1)]\<rparr>) \<and>
               sign_node env net node overwrite w =
                 (Inl e, \<lparr>paths = ps, invocations = invocations w @ [(ca_call env net nw, paths w1)]\<rparr>)) \<and>
            (\<forall>e ps w2. network_cert env net False w = (Inr (), w2) \<and>
                    artifact_state (node_outputs env net (ByNode node)) w2 = Absent \<and>
                    signing_process env (sign_call env net node) (paths w2) = (Inl e, ps) \<longrightarrow>
               sign_node env net node overwrite w =
                 (Inl e, \<lparr>paths = ps, invocations = invocations w2 @ [(sign_call env net node, paths w2)]\<rparr>)) \<and>
            (artifact_state (ca_outputs env net) w = Complete \<longrightarrow>
               network_cert env net False w = (Inr (), w1)) \<and>
            (\<forall>ps1. artifact_state (ca_outputs env net) w = Absent \<and>
                    signing_process env (ca_call env net nw) (paths w1) = (Inr (), ps1) \<longrightarrow>
               network_cert env net ca_overwrite w =
                 (Inr (), \<lparr>paths = ps1, invocations = invocations w @ [(ca_call env net nw, paths w1)]\<rparr>)))"
proof (intro conjI allI impI)
  fix e0 w1
  assume m: "make_temp_dir env net w = (Inl e0, w1)"
  from make_temp_dir_Inl [OF m] show e0: "e0 = FileNotFoundError" and w1: "w1 = w" by simp_all
  from network_cert_mkdir_fails [OF m] e0 w1
  show "network_cert env net ca_overwrite w = (Inl FileNotFoundError, w)" by simp
  from sign_node_mkdir_fails [OF m] e0 w1
  show "sign_node env net node overwrite w = (Inl FileNotFoundError, w)" by simp
next
  fix d w1 e ps
  assume m: "make_temp_dir env net w = (Inr d, w1)"
    and h: "artifact_state (ca_outputs env net) w = Absent \<and>
            signing_process env (ca_call env net nw) (paths w1) = (Inl e, ps)"
  from make_temp_dir_Inr [OF m] have d1: "dir env net \<in> paths w1"
    and inv: "invocations w1 = invocations w" by simp_all
  have ca: "artifact_state (ca_outputs env net) w1 = Absent"
    using artifact_state_make_temp_dir [OF m dir_not_ca_output] h by simp
  have run: "network_cert env net ov w1 =
      (Inl e, \<lparr>paths = ps, invocations = invocations w @ [(ca_call env net nw, paths w1)]\<rparr>)" for ov
    using network_cert_Absent_any [OF assms d1 ca] containers_run_eq [of env "ca_call env net nw" w1 "Inl e" ps] h
    by (simp add: inv)
  show "network_cert env net ca_overwrite w =
      (Inl e, \<lparr>paths = ps, invocations = invocations w @ [(ca_call env net nw, paths w1)]\<rparr>)"
    using network_cert_after_mkdir [OF m, of ca_overwrite] run by simp
  show "sign_node env net node overwrite w =
      (Inl e, \<lparr>paths = ps, invocations = invocations w @ [(ca_call env net nw, paths w1)]\<rparr>)"
    by (simp add: sign_node_steps [OF m] run)
next
  fix d w1 e ps w2
  assume m: "make_temp_dir env net w = (Inr d, w1)"
    and h: "network_cert env net False w = (Inr (), w2) \<and>
            artifact_state (node_outputs env net (ByNode node)) w2 = Absent \<and>
            signing_process env (sign_call env net node) (paths w2) = (Inl e, ps)"
  from h network_cert_after_mkdir [OF m, of False]
  have nc: "network_cert env net False w1 = (Inr (), w2)" by simp
  from h have ab: "artifact_state (node_outputs env net (ByNode node)) w2 = Absent" by simp
  from h have "signing_process env (sign_call env net node) (paths w2) = (Inl e, ps)" by simp
  from containers_run_eq [OF this]
  show "sign_node env net node overwrite w =
      (Inl e, \<lparr>paths = ps, invocations = invocations w2 @ [(sign_call env net node, paths w2)]\<rparr>)"
    by (simp add: sign_node_steps [OF m] nc node_step_Absent_any [OF ab])
next
  fix d w1
  assume m: "make_temp_dir env net w = (Inr d, w1)"
    and h: "artifact_state (ca_outputs env net) w = Complete"
  from make_temp_dir_Inr [OF m] have d1: "dir env net \<in> paths w1" by simp
  have ca: "artifact_state (ca_outputs env net) w1 = Complete"
    using artifact_state_make_temp_dir [OF m dir_not_ca_output] h by simp
  show "network_cert env net False w = (Inr (), w1)"
    using network_cert_after_mkdir [OF m, of False] network_cert_Complete [OF assms d1 ca] by simp
next
  fix d w1 ps1
  assume m: "make_temp_dir env net w = (Inr d, w1)"
    and h: "artifact_state (ca_outputs env net) w = Absent \<and>
            signing_process env (ca_call env net nw) (paths w1) = (Inr (), ps1)"
  from make_temp_dir_Inr [OF m] have d1: "dir env net \<in> paths w1"
    and inv: "invocations w1 = invocations w" by simp_all
  have ca: "artifact_state (ca_outputs env net) w1 = Absent"
    using artifact_state_make_temp_dir [OF m dir_not_ca_output] h by simp
  have run: "network_cert env net ca_overwrite w1 =
      (Inr (), \<lparr>paths = ps1, invocations = invocations w @ [(ca_call env net nw, paths w1)]\<rparr>)"
    using network_cert_Absent_any [OF assms d1 ca] containers_run_eq [of env "ca_call env net nw" w1 "Inr ()" ps1] h
    by (simp add: inv)
  show "network_cert env net ca_overwrite w =
      (Inr (), \<lparr>paths = ps1, invocations = invocations w @ [(ca_call env net nw, paths w1)]\<rparr>)"
    using network_cert_after_mkdir [OF m, of ca_overwrite] run by simp
qed

lemma io_make_temp_dir_missing_parent:
  "make_temp_dir (example_env p) io_network (world_of []) = (Inl FileNotFoundError, world_of [])"
  by (simp add: make_temp_dir_def mkdir_def io_dir io_dirname world_of_def)

lemma io_make_temp_dir_first:
  "make_temp_dir (example_env p) io_network (world_of [''/w'']) = (Inr ''/w/CA'', world_of [''/w/CA'', ''/w''])"
  by (simp add: make_temp_dir_def mkdir_def io_dir io_dirname world_of_def)

lemma io_make_temp_dir_there:
  "make_temp_dir (example_env p) io_network (world_of (''/w/CA'' # fs)) = (Inr ''/w/CA'', world_of (''/w/CA'' # fs))"
  by (simp add: make_temp_dir_def io_dir world_of_def)

text \<open>
  With no parent directory the request fails before any process runs. From the
  parent directory alone, a process that fails on the authority leaves the
  authority's certificate behind; a process that signs the authority and fails on
  node A leaves the authority's files, node A's certificate, and both invocations.
  From a Complete authority set the authority step returns at once and the failed
  run for node A leaves its certificate behind.
\<close>

theorem failed_signing_keeps_files_witness:
  "network io_network = Inr (167772160, 30) \<and>
   make_temp_dir (example_env failing_process) io_network (world_of []) = (Inl FileNotFoundError, world_of []) \<and>
   sign_node (example_env failing_process) io_network io_node False (world_of []) =
     (Inl FileNotFoundError, world_of []) \<and>
   make_temp_dir (example_env failing_process) io_network (world_of [''/w'']) =
     (Inr ''/w/CA'', world_of [''/w/CA'', ''/w'']) \<and>
   artifact_state (ca_outputs (example_env failing_process) io_network) (world_of [''/w'']) = Absent \<and>
   network_cert (example_env failing_process) io_network False (world_of [''/w'']) =
     (Inl (ProcessError ''exit status 1''),
      \<lparr>paths = {''/w/CA/CA_10.0.0.0_30.crt'', ''/w/CA'', ''/w''},
       invocations = [(ca_call (example_env failing_process) io_network (167772160, 30), {''/w/CA'', ''/w''})]\<rparr>) \<and>
   sign_node (example_env failing_process) io_network io_node True (world_of [''/w'']) =
     (Inl (ProcessError ''exit status 1''),
      \<lparr>paths = {''/w/CA/CA_10.0.0.0_30.crt'', ''/w/CA'', ''/w''},
       invocations = [(ca_call (example_env failing_process) io_network (167772160, 30), {''/w/CA'', ''/w''})]\<rparr>) \<and>
   network_cert (example_env node_failing_process) io_network False (world_of [''/w'']) =
     (Inr (), \<lparr>paths = {''/w/CA'', ''/w''} \<union> set ca_files,
       invocations = [(ca_call (example_env node_failing_process) io_network (167772160, 30), {''/w/CA'', ''/w''})]\<rparr>) \<and>
   artifact_state (node_outputs (example_env node_failing_process) io_network (ByNode io_node))
     \<lparr>paths = {''/w/CA'', ''/w''} \<union> set ca_files,
      invocations = [(ca_call (example_env node_failing_process) io_network (167772160, 30), {''/w/CA'', ''/w''})]\<rparr> = Absent \<and>
   sign_node (example_env node_failing_process) io_network io_node False (world_of [''/w'']) =
     (Inl (ProcessError ''exit status 1''),
      \<lparr>paths = insert ''/w/CA/A.crt'' ({''/w/CA'', ''/w''} \<union> set ca_files),
       invocations = [(ca_call (example_env node_failing_process) io_network (167772160, 30), {''/w/CA'', ''/w''}),
                      (sign_call (example_env node_failing_process) io_network io_node,
                       {''/w/CA'', ''/w''} \<union> set ca_files)]\<rparr>) \<and>
   artifact_state (ca_outputs (example_env failing_process) io_network) (world_of (''/w/CA'' # ca_files)) = Complete \<and>
   network_cert (example_env failing_process) io_network False (world_of (''/w/CA'' # ca_files)) =
     (Inr (), world_of (''/w/CA'' # ca_files)) \<and>
   artifact_state (node_outputs (example_env failing_process) io_network (ByNode io_node)) (world_of (''/w/CA'' # ca_files)) = Absent \<and>
   sign_node (example_env failing_process) io_network io_node False (world_of (''/w/CA'' # ca_files)) =
     (Inl (ProcessError ''exit status 1''),
      \<lparr>paths = insert ''/w/CA/A.crt'' (set (''/w/CA'' # ca_files)),
       invocations = [(sign_call (example_env failing_process) io_network io_node, set (''/w/CA'' # ca_files))]\<rparr>)"
proof -
  let ?env = "example_env failing_process"
  let ?envn = "example_env node_failing_process"
  let ?z = "world_of []"
  let ?w = "world_of [''/w'']"
  let ?w1 = "world_of [''/w/CA'', ''/w'']"
  let ?v = "world_of (''/w/CA'' # ca_files)"
  let ?u = "\<lparr>paths = {''/w/CA'', ''/w''} \<union> set ca_files,
      invocations = [(ca_call ?envn io_network (167772160, 30), {''/w/CA'', ''/w''})]\<rparr>"
  note t0 = failed_signing_keeps_files [OF io_network_block, of ?env ?z False io_node False]
  note t1 = failed_signing_keeps_files [OF io_network_block, of ?env ?w False io_node True]
  note t2 = failed_signing_keeps_files [OF io_network_block, of ?envn ?w False io_node False]
  note t3 = failed_signing_keeps_files [OF io_network_block, of ?env ?v False io_node False]
  have m0: "make_temp_dir ?env io_network ?z = (Inl FileNotFoundError, ?z)"
    by (rule io_make_temp_dir_missing_parent)
  have m1: "make_temp_dir ?env io_network ?w = (Inr ''/w/CA'', ?w1)"
    by (rule io_make_temp_dir_first)
  have m2: "make_temp_dir ?envn io_network ?w = (Inr ''/w/CA'', ?w1)"
    by (rule io_make_temp_dir_first)
  have m3: "make_temp_dir ?env io_network ?v = (Inr ''/w/CA'', ?v)"
    by (rule io_make_temp_dir_there)
  have r0: "sign_node ?env io_network io_node False ?z = (Inl FileNotFoundError, ?z)"
    using t0 m0 by blast
  have c1: "artifact_state (ca_outputs ?env io_network) ?w = Absent"
    by (simp add: io_ca_outputs state_evals ca_files_def)
  have c2: "artifact_state (ca_outputs ?envn io_network) ?w = Absent"
    by (simp add: io_ca_outputs state_evals ca_files_def)
  have p1: "signing_process ?env (ca_call ?env io_network (167772160, 30)) (paths ?w1) =
      (Inl (ProcessError ''exit status 1''), insert ''/w/CA/CA_10.0.0.0_30.crt'' (paths ?w1))"
    by (simp add: failing_process_ca)
  from t1 m1 c1 p1
  have "network_cert ?env io_network False ?w =
     (Inl (ProcessError ''exit status 1''),
      \<lparr>paths = insert ''/w/CA/CA_10.0.0.0_30.crt'' (paths ?w1),
       invocations = invocations ?w @ [(ca_call ?env io_network (167772160, 30), paths ?w1)]\<rparr>) \<and>
     sign_node ?env io_network io_node True ?w =
     (Inl (ProcessError ''exit status 1''),
      \<lparr>paths = insert ''/w/CA/CA_10.0.0.0_30.crt'' (paths ?w1),
       invocations = invocations ?w @ [(ca_call ?env io_network (167772160, 30), paths ?w1)]\<rparr>)"
    by blast
  then have r1: "network_cert ?env io_network False ?w =
     (Inl (ProcessError ''exit status 1''),
      \<lparr>paths = {''/w/CA/CA_10.0.0.0_30.crt'', ''/w/CA'', ''/w''},
       invocations = [(ca_call ?env io_network (167772160, 30), {''/w/CA'', ''/w''})]\<rparr>)"
    and r1': "sign_node ?env io_network io_node True ?w =
     (Inl (ProcessError ''exit status 1''),
      \<lparr>paths = {''/w/CA/CA_10.0.0.0_30.crt'', ''/w/CA'', ''/w''},
       invocations = [(ca_call ?env io_network (167772160, 30), {''/w/CA'', ''/w''})]\<rparr>)"
    by (simp_all add: world_of_def)
  have p2: "signing_process ?envn (ca_call ?envn io_network (167772160, 30)) (paths ?w1) =
      (Inr (), paths ?w1 \<union> set ca_files)"
    by (simp add: node_failing_process_ca)
  from t2 m2 c2 p2
  have "network_cert ?envn io_network False ?w =
     (Inr (), \<lparr>paths = paths ?w1 \<union> set ca_files,
       invocations = invocations ?w @ [(ca_call ?envn io_network (167772160, 30), paths ?w1)]\<rparr>)"
    by blast
  then have r2: "network_cert ?envn io_network False ?w = (Inr (), ?u)"
    by (simp add: world_of_def)
  have n2: "artifact_state (node_outputs ?envn io_network (ByNode io_node)) ?u = Absent"
    by (simp add: io_node_outputs artifact_state_def ca_files_def node_files_def)
  have p3: "signing_process ?envn (sign_call ?envn io_network io_node) (paths ?u) =
      (Inl (ProcessError ''exit status 1''), insert ''/w/CA/A.crt'' (paths ?u))"
    by (simp add: node_failing_process_sign)
  from t2 m2 r2 n2 p3
  have "sign_node ?envn io_network io_node False ?w =
     (Inl (ProcessError ''exit status 1''),
      \<lparr>paths = insert ''/w/CA/A.crt'' (paths ?u),
       invocations = invocations ?u @ [(sign_call ?envn io_network io_node, paths ?u)]\<rparr>)"
    by blast
  then have r3: "sign_node ?envn io_network io_node False ?w =
     (Inl (ProcessError ''exit status 1''),
      \<lparr>paths = insert ''/w/CA/A.crt'' ({''/w/CA'', ''/w''} \<union> set ca_files),
       invocations = [(ca_call ?envn io_network (167772160, 30), {''/w/CA'', ''/w''}),
                      (sign_call ?envn io_network io_node, {''/w/CA'', ''/w''} \<union> set ca_files)]\<rparr>)"
    by simp
  have cv: "artifact_state (ca_outputs ?env io_network) ?v = Complete"
    by (simp add: io_ca_outputs state_evals ca_files_def)
  have nv: "artifact_state (node_outputs ?env io_network (ByNode io_node)) ?v = Absent"
    by (simp add: io_node_outputs state_evals ca_files_def node_files_def)
  from t3 m3 cv have r4: "network_cert ?env io_network False ?v = (Inr (), ?v)" by blast
  have p4: "signing_process ?env (sign_call ?env io_network io_node) (paths ?v) =
      (Inl (ProcessError ''exit status 1''), insert ''/w/CA/A.crt'' (paths ?v))"
    by (simp add: failing_process_sign)
  from t3 m3 r4 nv p4
  have "sign_node ?env io_network io_node False ?v =
     (Inl (ProcessError ''exit status 1''),
      \<lparr>paths = insert ''/w/CA/A.crt'' (paths ?v),
       invocations = invocations ?v @ [(sign_call ?env io_network io_node, paths ?v)]\<rparr>)"
    by blast
  then have r5: "sign_node ?env io_network io_node False ?v =
     (Inl (ProcessError ''exit status 1''),
      \<lparr>paths = insert ''/w/CA/A.crt'' (set (''/w/CA'' # ca_files)),
       invocations = [(sign_call ?env io_network io_node, set (''/w/CA'' # ca_files))]\<rparr>)"
    by (simp add: world_of_def)
  show ?thesis using io_network_block m0 r0 m1 c1 r1 r1' r2 n2 r3 cv r4 nv r5 by blast
qed

text \<open>
  After the failed runs of the witness, each set has its certificate file only:
  the authority's set, Absent before the request, is left Partial; and node A's
  set, Absent before the request and Absent when its container starts, is left
  Partial, on the first run from the parent directory alone as well as beside a
  Complete authority set.
\<close>

theorem failed_signing_leaves_partial_counterexample:
  "artifact_state (ca_outputs (example_env failing_process) io_network) (world_of [''/w'']) = Absent \<and>
   fst (network_cert (example_env failing_process) io_network False (world_of [''/w''])) =
     Inl (ProcessError ''exit status 1'') \<and>
   artifact_state (ca_outputs (example_env failing_process) io_network)
     (snd (network_cert (example_env failing_process) io_network False (world_of [''/w'']))) = Partial \<and>
   artifact_state (node_outputs (example_env node_failing_process) io_network (ByNode io_node)) (world_of [''/w'']) = Absent \<and>
   fst (sign_node (example_env node_failing_process) io_network io_node False (world_of [''/w''])) =
     Inl (ProcessError ''exit status 1'') \<and>
   artifact_state (node_outputs (example_env node_failing_process) io_network (ByNode io_node))
     (snd (sign_node (example_env node_failing_process) io_network io_node False (world_of [''/w'']))) = Partial \<and>
   artifact_state (node_outputs (example_env failing_process) io_network (ByNode io_node)) (world_of (''/w/CA'' # ca_files)) = Absent \<and>
   fst (sign_node (example_env failing_process) io_network io_node False (world_of (''/w/CA'' # ca_files))) =
     Inl (ProcessError ''exit status 1'') \<and>
   artifact_state (node_outputs (example_env failing_process) io_network (ByNode io_node))
     (snd (sign_node (example_env failing_process) io_network io_node False (world_of (''/w/CA'' # ca_files)))) = Partial"
proof -
  let ?env = "example_env failing_process"
  let ?envn = "example_env node_failing_process"
  let ?w = "world_of [''/w'']"
  let ?w1 = "world_of [''/w/CA'', ''/w'']"
  let ?v = "world_of (''/w/CA'' # ca_files)"
  let ?u = "\<lparr>paths = paths ?w1 \<union> set ca_files,
      invocations = invocations ?w1 @ [(ca_call ?envn io_network (167772160, 30), paths ?w1)]\<rparr>"
  have d1: "dir ?env io_network \<in> paths ?w1" by (simp add: io_dir world_of_def)
  have d1n: "dir ?envn io_network \<in> paths ?w1" by (simp add: io_dir world_of_def)
  have dv: "dir ?env io_network \<in> paths ?v" by (simp add: io_dir world_of_def)
  have c0: "artifact_state (ca_outputs ?env io_network) ?w = Absent"
    by (simp add: io_ca_outputs state_evals ca_files_def)
  have c1: "artifact_state (ca_outputs ?env io_network) ?w1 = Absent"
    by (simp add: io_ca_outputs state_evals ca_files_def)
  have c1n: "artifact_state (ca_outputs ?envn io_network) ?w1 = Absent"
    by (simp add: io_ca_outputs state_evals ca_files_def)
  have cv: "artifact_state (ca_outputs ?env io_network) ?v = Complete"
    by (simp add: io_ca_outputs state_evals ca_files_def)
  have n0: "artifact_state (node_outputs ?envn io_network (ByNode io_node)) ?w = Absent"
    by (simp add: io_node_outputs state_evals node_files_def)
  have nu: "artifact_state (node_outputs ?envn io_network (ByNode io_node)) ?u = Absent"
    by (simp add: io_node_outputs artifact_state_def ca_files_def node_files_def world_of_def)
  have nv: "artifact_state (node_outputs ?env io_network (ByNode io_node)) ?v = Absent"
    by (simp add: io_node_outputs state_evals ca_files_def node_files_def)
  have r1: "network_cert ?env io_network False ?w =
     (Inl (ProcessError ''exit status 1''),
      \<lparr>paths = insert ''/w/CA/CA_10.0.0.0_30.crt'' (paths ?w1),
       invocations = invocations ?w1 @ [(ca_call ?env io_network (167772160, 30), paths ?w1)]\<rparr>)"
    unfolding network_cert_after_mkdir [OF io_make_temp_dir_first] network_cert_Absent [OF io_network_block d1 c1]
    by (rule containers_run_eq) (simp add: failing_process_ca)
  have a1: "network_cert ?envn io_network False ?w1 = (Inr (), ?u)"
    unfolding network_cert_Absent [OF io_network_block d1n c1n]
    by (rule containers_run_eq) (simp add: node_failing_process_ca)
  have run: "containers_run ?envn (sign_call ?envn io_network io_node) ?u =
     (Inl (ProcessError ''exit status 1''),
      \<lparr>paths = insert ''/w/CA/A.crt'' (paths ?u),
       invocations = invocations ?u @ [(sign_call ?envn io_network io_node, paths ?u)]\<rparr>)"
    by (rule containers_run_eq) (simp add: node_failing_process_sign)
  have r2: "sign_node ?envn io_network io_node False ?w =
     (Inl (ProcessError ''exit status 1''),
      \<lparr>paths = insert ''/w/CA/A.crt'' (paths ?u),
       invocations = invocations ?u @ [(sign_call ?envn io_network io_node, paths ?u)]\<rparr>)"
    unfolding sign_node_steps [OF io_make_temp_dir_first] a1
    using node_step_Absent [OF nu] run by simp
  have r3: "sign_node ?env io_network io_node False ?v =
     (Inl (ProcessError ''exit status 1''),
      \<lparr>paths = insert ''/w/CA/A.crt'' (paths ?v),
       invocations = invocations ?v @ [(sign_call ?env io_network io_node, paths ?v)]\<rparr>)"
    unfolding sign_node_Absent [OF io_network_block dv cv nv]
    by (rule containers_run_eq) (simp add: failing_process_sign)
  have s1: "artifact_state (ca_outputs ?env io_network) (snd (network_cert ?env io_network False ?w)) = Partial"
    unfolding r1 by (simp add: io_ca_outputs artifact_state_def ca_files_def world_of_def)
  have s2: "artifact_state (node_outputs ?envn io_network (ByNode io_node))
     (snd (sign_node ?envn io_network io_node False ?w)) = Partial"
    unfolding r2 by (simp add: io_node_outputs artifact_state_def ca_files_def node_files_def world_of_def)
  have s3: "artifact_state (node_outputs ?env io_network (ByNode io_node))
     (snd (sign_node ?env io_network io_node False ?v)) = Partial"
    unfolding r3 by (simp add: io_node_outputs artifact_state_def ca_files_def node_files_def world_of_def)
  have f1: "fst (network_cert ?env io_network False ?w) = Inl (ProcessError ''exit status 1'')"
    unfolding r1 by simp
  have f2: "fst (sign_node ?envn io_network io_node False ?w) = Inl (ProcessError ''exit status 1'')"
    unfolding r2 by simp
  have f3: "fst (sign_node ?env io_network io_node False ?v) = Inl (ProcessError ''exit status 1'')"
    unfolding r3 by simp
  show ?thesis using c0 f1 s1 n0 f2 s2 nv f3 s3 by blast
qed

subsection \<open>The authority comes first\<close>















section \<open>Properties of serialization\<close>




section \<open>Properties of the output layout\<close>

text \<open>
  Claim C9, as the code has it. The configuration path of a node is the output
  directory, a slash and \<open>n.yaml\<close>; the composition descriptor path is the output
  directory, a slash and \<open>n_docker-compose.yml\<close>, where \<open>n\<close> is the node's name
  (the argument itself when it is a string). Both are functions of the node name
  and the network's output directory.
\<close>

theorem node_paths_from_name:
  "node_config env self node = dir env self @ ''/'' @ node_name node @ ''.yaml'' \<and>
   suffix (node_name node @ ''.yaml'') (node_config env self node) \<and>
   node_compose env self node = dir env self @ ''/'' @ node_name node @ ''_docker-compose.yml'' \<and>
   suffix (node_name node @ ''_docker-compose.yml'') (node_compose env self node) \<and>
   node_name (ByName n) = n \<and> node_name (ByNode x) = name x"
  by (simp add: node_config_def node_compose_def NODE_CONFIG_TEMPLATE_def NODE_COMPOSE_TEMPLATE_def
      suffix_def)

text \<open>The descriptor of node A is \<open>/w/CA/A_docker-compose.yml\<close>, which does not end in \<open>A_compose.yml\<close>.\<close>

theorem node_compose_name_counterexample:
  "node_compose (example_env writing_process) io_network (ByNode io_node) = ''/w/CA/A_docker-compose.yml'' \<and>
   \<not> suffix (name io_node @ ''_compose.yml'') (node_compose (example_env writing_process) io_network (ByNode io_node))"
proof -
  have c: "node_compose (example_env writing_process) io_network (ByNode io_node) = ''/w/CA/A_docker-compose.yml''"
    by (simp add: node_compose_def io_dir NODE_COMPOSE_TEMPLATE_def)
       (simp add: io_node_def NebulaNode_default_def)
  have n: "name io_node = ''A''" by (simp add: io_node_def NebulaNode_default_def)
  have "\<not> suffix (''A'' @ ''_compose.yml'') ''/w/CA/A_docker-compose.yml''"
    by (simp add: suffix_to_prefix)
  then show ?thesis using c n by simp
qed

section \<open>Properties of node selection\<close>






section \<open>Properties of configuration composition\<close>

lemma compose_node_identity: "node_identity (snd (compose_node env self node)) = node_identity node"
  by (simp add: compose_node_def get_firewall_items_from_groups_def node_identity_def Let_def
      split: sum.splits)

lemma compose_node_config:
  assumes "compose_node env self node = (Inr u, node')"
  shows "\<exists>c. config node' = Some c \<and>
             (if am_lighthouse node then static_host_map c = []
              else StaticHostMap_validate (lighthouse_contents self) = Inr (static_host_map c))"
  using assms
  by (auto simp: compose_node_def get_firewall_items_from_groups_def Let_def
      split: sum.splits if_splits)

lemma lighthouse_contents_identity:
  assumes "map node_identity (nodes a) = map node_identity (nodes b)"
  shows "lighthouse_contents a = lighthouse_contents b"
proof -
  have "map (\<lambda>n. (ip n, [public n])) (filter am_lighthouse ns) =
          map (\<lambda>i. (fst (snd i), [snd (snd (snd i))]))
            (filter (\<lambda>i. fst (snd (snd i))) (map node_identity ns))" for ns :: "NebulaNode list"
    by (induction ns) (simp_all add: node_identity_def)
  with assms show ?thesis by (simp add: lighthouse_contents_def lighthouses_def)
qed

lemma identity_update:
  assumes "k < length ns" "node_identity n' = node_identity (ns ! k)"
  shows "map node_identity (ns[k := n']) = map node_identity ns"
  using assms by (simp add: map_update list_update_same_conv)

lemma create_node_cert_loop_result:
  assumes "create_node_cert_loop env ks self w = (Inr u, self', w')"
    and "distinct ks" and "\<forall>k \<in> set ks. k < length (nodes self)"
  shows "map node_identity (nodes self') = map node_identity (nodes self) \<and>
         (\<forall>j. j \<notin> set ks \<longrightarrow> nodes self' ! j = nodes self ! j) \<and>
         (\<forall>k \<in> set ks. \<exists>c. config (nodes self' ! k) = Some c \<and>
            (if am_lighthouse (nodes self ! k) then static_host_map c = []
             else StaticHostMap_validate (lighthouse_contents self) = Inr (static_host_map c)))"
  using assms
proof (induction ks arbitrary: self w)
  case Nil
  then show ?case by simp
next
  case (Cons k ks)
  let ?node = "nodes self ! k"
  from Cons.prems(1) obtain w1 node' where
    comp: "compose_node env self ?node = (Inr (), node')"
    and rest: "create_node_cert_loop env ks (self\<lparr>nodes := (nodes self)[k := node']\<rparr>) w1 = (Inr u, self', w')"
    by (auto split: prod.splits sum.splits)
  let ?self1 = "self\<lparr>nodes := (nodes self)[k := node']\<rparr>"
  from Cons.prems(3) have k: "k < length (nodes self)" by simp
  have idn: "node_identity node' = node_identity ?node"
    using compose_node_identity [of env self ?node] comp by simp
  have ids: "map node_identity (nodes ?self1) = map node_identity (nodes self)"
    using identity_update [OF k idn] by simp
  have lc: "lighthouse_contents ?self1 = lighthouse_contents self"
    by (rule lighthouse_contents_identity [OF ids])
  from Cons.prems have d: "distinct ks" and b: "\<forall>j \<in> set ks. j < length (nodes ?self1)" and kn: "k \<notin> set ks"
    by simp_all
  from Cons.IH [OF rest d b]
  have i1: "map node_identity (nodes self') = map node_identity (nodes ?self1)"
    and i2: "\<And>j. j \<notin> set ks \<Longrightarrow> nodes self' ! j = nodes ?self1 ! j"
    and i3: "\<And>j. j \<in> set ks \<Longrightarrow> \<exists>c. config (nodes self' ! j) = Some c \<and>
            (if am_lighthouse (nodes ?self1 ! j) then static_host_map c = []
             else StaticHostMap_validate (lighthouse_contents ?self1) = Inr (static_host_map c))"
    by blast+
  have aml: "am_lighthouse (nodes ?self1 ! j) = am_lighthouse (nodes self ! j)" if "j < length (nodes self)" for j
  proof -
    have "node_identity (nodes ?self1 ! j) = node_identity (nodes self ! j)"
      using that ids by (metis length_map nth_map)
    then show ?thesis by (simp add: node_identity_def)
  qed
  have atk: "nodes self' ! k = node'" using i2 [OF kn] k by simp
  have c1: "map node_identity (nodes self') = map node_identity (nodes self)" using i1 ids by simp
  have c2: "\<forall>j. j \<notin> set (k # ks) \<longrightarrow> nodes self' ! j = nodes self ! j"
    using i2 by auto
  have c3: "\<exists>c. config (nodes self' ! j) = Some c \<and>
            (if am_lighthouse (nodes self ! j) then static_host_map c = []
             else StaticHostMap_validate (lighthouse_contents self) = Inr (static_host_map c))"
    if "j \<in> set (k # ks)" for j
  proof (cases "j = k")
    case True
    with compose_node_config [OF comp] atk show ?thesis by simp
  next
    case False
    with that have j: "j \<in> set ks" by simp
    with Cons.prems(3) have "j < length (nodes self)" by simp
    from this have a: "am_lighthouse (nodes ?self1 ! j) = am_lighthouse (nodes self ! j)" by (rule aml)
    from i3 [OF j] show ?thesis unfolding a lc .
  qed
  from c1 c2 c3 show ?case by blast
qed

lemma dict_of_distinct:
  assumes "distinct (map fst ps)"
  shows "dict_of ps = ps"
proof -
  have "foldl (\<lambda>d kv. AList.update (fst kv) (snd kv) d) acc qs = acc @ qs"
    if "distinct (map fst (acc @ qs))" for acc qs :: "('a \<times> 'b) list"
    using that
  proof (induction qs arbitrary: acc)
    case Nil
    then show ?case by simp
  next
    case (Cons q qs)
    from Cons.prems have "fst q \<notin> fst ` set acc" by auto
    then have "AList.update (fst q) (snd q) acc = acc @ [q]"
      by (induction acc) auto
    moreover from Cons.prems have "distinct (map fst ((acc @ [q]) @ qs))" by auto
    ultimately show ?case using Cons.IH [of "acc @ [q]"] by simp
  qed
  from this [of "[]" ps] assms show ?thesis by (simp add: dict_of_def)
qed

lemma StaticHostMap_validate_pairs:
  "StaticHostMap_validate (map (\<lambda>n. (ip n, [public n])) ns) = Inr m \<Longrightarrow>
   (\<forall>n \<in> set ns. ip n \<noteq> None \<and> public n \<noteq> None) \<and>
   m = map (\<lambda>n. (the (ip n), [the (public n)])) ns"
proof (induction ns arbitrary: m)
  case Nil
  then show ?case by simp
next
  case (Cons n ns)
  from Cons.prems obtain a p m' where
    "ip n = Some a" "public n = Some p"
    "StaticHostMap_validate (map (\<lambda>n. (ip n, [public n])) ns) = Inr m'" "m = (a, [p]) # m'"
    by (auto split: option.splits sum.splits)
  with Cons.IH [of m'] show ?case by simp
qed

lemma network_nodes_update [simp]: "network (self\<lparr>nodes := ns\<rparr>) = network self"
  by (simp add: network_def)

lemma dir_nodes_update [simp]: "dir env (self\<lparr>nodes := ns\<rparr>) = dir env self"
  by (simp add: dir_def)

lemma ca_outputs_nodes_update [simp]: "ca_outputs env (self\<lparr>nodes := ns\<rparr>) = ca_outputs env self"
  by (simp add: ca_outputs_def ca_cert_prefix_def)

lemma node_outputs_nodes_update [simp]:
  "node_outputs env (self\<lparr>nodes := ns\<rparr>) r = node_outputs env self r"
  by (simp add: node_outputs_def node_cert_prefix_def)

lemma node_outputs_identity:
  "node_identity n' = node_identity n \<Longrightarrow>
   node_outputs env self (ByNode n') = node_outputs env self (ByNode n)"
  by (simp add: node_outputs_def node_cert_prefix_def node_identity_def)

lemma compose_node_succeeds:
  "StaticHostMap_validate (lighthouse_contents self) = Inr m \<Longrightarrow>
   \<exists>node'. compose_node env self node = (Inr (), node')"
  by (simp add: compose_node_def get_firewall_items_from_groups_def Let_def)

lemma create_node_cert_loop_Complete:
  assumes "network self = Inr nw" and "dir env self \<in> paths w"
    and "artifact_state (ca_outputs env self) w = Complete"
    and "\<forall>k \<in> set ks. k < length (nodes self) \<and>
           artifact_state (node_outputs env self (ByNode (nodes self ! k))) w = Complete"
    and "StaticHostMap_validate (lighthouse_contents self) = Inr m"
  shows "\<exists>self'. create_node_cert_loop env ks self w = (Inr (), self', w)"
  using assms
proof (induction ks arbitrary: self)
  case Nil
  then show ?case by simp
next
  case (Cons k ks)
  let ?node = "nodes self ! k"
  from Cons.prems(4) have k: "k < length (nodes self)"
    and st: "artifact_state (node_outputs env self (ByNode ?node)) w = Complete" by simp_all
  have sg: "sign_node env self ?node False w = (Inr (), w)"
    by (rule sign_node_Complete [OF Cons.prems(1-3) st])
  from compose_node_succeeds [OF Cons.prems(5)]
  obtain node' where comp: "compose_node env self ?node = (Inr (), node')" by blast
  let ?self1 = "self\<lparr>nodes := (nodes self)[k := node']\<rparr>"
  have idn: "node_identity node' = node_identity ?node"
    using compose_node_identity [of env self ?node] comp by simp
  have ids: "map node_identity (nodes ?self1) = map node_identity (nodes self)"
    using identity_update [OF k idn] by simp
  have lc: "lighthouse_contents ?self1 = lighthouse_contents self"
    by (rule lighthouse_contents_identity [OF ids])
  have h4: "\<forall>j \<in> set ks. j < length (nodes ?self1) \<and>
           artifact_state (node_outputs env ?self1 (ByNode (nodes ?self1 ! j))) w = Complete"
  proof
    fix j assume j: "j \<in> set ks"
    with Cons.prems(4) have jl: "j < length (nodes self)"
      and js: "artifact_state (node_outputs env self (ByNode (nodes self ! j))) w = Complete" by simp_all
    have "node_identity (nodes ?self1 ! j) = node_identity (nodes self ! j)"
      using jl ids by (metis length_map nth_map)
    from node_outputs_identity [OF this, of env self] js jl
    show "j < length (nodes ?self1) \<and>
           artifact_state (node_outputs env ?self1 (ByNode (nodes ?self1 ! j))) w = Complete"
      by simp
  qed
  have "\<exists>self'. create_node_cert_loop env ks ?self1 w = (Inr (), self', w)"
    using Cons.IH [of ?self1] Cons.prems(1-3,5) h4 lc by simp
  then show ?case using sg comp by simp
qed

lemma dict_of_snoc: "dict_of (ps @ [p]) = AList.update (fst p) (snd p) (dict_of ps)"
  by (simp add: dict_of_def)

lemma dict_of_Nil: "dict_of [] = []"
  by (simp add: dict_of_def)

lemma map_of_dict_of: "map_of (dict_of ps) = map_of (rev ps)"
  by (induction ps rule: rev_induct) (simp_all add: dict_of_Nil dict_of_snoc update_conv')

lemma keys_dict_of: "map fst (dict_of ps) = rev (remdups (rev (map fst ps)))"
proof (induction ps rule: rev_induct)
  case Nil
  then show ?case by (simp add: dict_of_Nil)
next
  case (snoc p ps)
  have "set (rev (remdups (rev (map fst ps)))) = fst ` set ps" by simp
  with snoc show ?case by (simp add: dict_of_snoc update_keys)
qed

lemma those_Some: "those xs = Some ps \<Longrightarrow> xs = map Some ps"
  by (induction xs arbitrary: ps) (auto split: option.splits)

lemma StaticHostMap_validate_result:
  "StaticHostMap_validate D = Inr m \<Longrightarrow> D = map (\<lambda>kv. (Some (fst kv), map Some (snd kv))) m"
proof (induction D arbitrary: m)
  case Nil
  then show ?case by simp
next
  case (Cons kv D)
  from Cons.prems obtain a ps m' where
    "fst kv = Some a" "those (snd kv) = Some ps" "StaticHostMap_validate D = Inr m'" "m = (a, ps) # m'"
    by (auto split: option.splits sum.splits)
  with Cons.IH [of m'] those_Some [of "snd kv" ps] show ?case by (cases kv) simp
qed

lemma map_of_Some_keys:
  "map_of (map (\<lambda>kv. (Some (fst kv), g (snd kv))) m) (Some a) = map_option g (map_of m a)"
  by (induction m) auto

lemma map_of_find:
  "map_of (map (\<lambda>x. (f x, g x)) xs) k = map_option g (find (\<lambda>x. f x = k) xs)"
  by (induction xs) auto

lemma lighthouse_contents_validated:
  assumes v: "StaticHostMap_validate (lighthouse_contents self) = Inr m"
  shows "map (Some \<circ> fst) m = rev (remdups (rev (map ip (lighthouses self))))"
    and "map_of m a =
           (case find (\<lambda>l. ip l = Some a) (rev (lighthouses self)) of
              None \<Rightarrow> None
            | Some l \<Rightarrow> Some [the (public l)])"
    and "find (\<lambda>l. ip l = Some a) (rev (lighthouses self)) = Some l \<Longrightarrow> public l \<noteq> None"
    and "l \<in> set (lighthouses self) \<Longrightarrow> ip l \<noteq> None"
    and "distinct (map ip (lighthouses self)) \<Longrightarrow>
           m = map (\<lambda>l. (the (ip l), [the (public l)])) (lighthouses self) \<and>
           (\<forall>l \<in> set (lighthouses self). public l \<noteq> None)"
proof -
  let ?P = "map (\<lambda>n. (ip n, [public n])) (lighthouses self)"
  from StaticHostMap_validate_result [OF v]
  have D: "lighthouse_contents self = map (\<lambda>kv. (Some (fst kv), map Some (snd kv))) m" .
  have "map fst (lighthouse_contents self) = rev (remdups (rev (map ip (lighthouses self))))"
    by (simp add: lighthouse_contents_def keys_dict_of comp_def)
  moreover have "map fst (lighthouse_contents self) = map (Some \<circ> fst) m"
    unfolding D by (simp add: comp_def)
  ultimately show keys: "map (Some \<circ> fst) m = rev (remdups (rev (map ip (lighthouses self))))" by simp
  have "map_of (lighthouse_contents self) (Some a) =
          map_option (\<lambda>l. [public l]) (find (\<lambda>l. ip l = Some a) (rev (lighthouses self)))"
    by (simp add: lighthouse_contents_def map_of_dict_of rev_map map_of_find)
  moreover have "map_of (lighthouse_contents self) (Some a) = map_option (map Some) (map_of m a)"
    unfolding D by (rule map_of_Some_keys)
  ultimately have eq: "map_option (map Some) (map_of m a) =
          map_option (\<lambda>l. [public l]) (find (\<lambda>l. ip l = Some a) (rev (lighthouses self)))"
    by simp
  show "map_of m a =
           (case find (\<lambda>l. ip l = Some a) (rev (lighthouses self)) of
              None \<Rightarrow> None
            | Some l \<Rightarrow> Some [the (public l)])"
  proof (cases "find (\<lambda>l. ip l = Some a) (rev (lighthouses self))")
    case None
    with eq show ?thesis by simp
  next
    case (Some l)
    with eq obtain ps where ps: "map_of m a = Some ps" "map Some ps = [public l]" by auto
    then obtain p where "ps = [p]" "public l = Some p" by (cases ps) auto
    with ps Some show ?thesis by simp
  qed
  show "public l \<noteq> None" if "find (\<lambda>l. ip l = Some a) (rev (lighthouses self)) = Some l"
    using eq that by (auto dest: sym)
  show "ip l \<noteq> None" if "l \<in> set (lighthouses self)"
  proof -
    from that have "ip l \<in> set (rev (remdups (rev (map ip (lighthouses self)))))" by simp
    with keys have "ip l \<in> set (map (Some \<circ> fst) m)" by simp
    then show ?thesis by auto
  qed
  show "m = map (\<lambda>l. (the (ip l), [the (public l)])) (lighthouses self) \<and>
           (\<forall>l \<in> set (lighthouses self). public l \<noteq> None)"
    if d: "distinct (map ip (lighthouses self))"
  proof -
    have pairs: "lighthouse_contents self = ?P"
      unfolding lighthouse_contents_def using d by (intro dict_of_distinct) (simp add: comp_def)
    from v StaticHostMap_validate_pairs [of "lighthouses self" m]
    show ?thesis by (simp add: pairs)
  qed
qed

lemma create_node_cert_nodes:
  assumes run: "create_node_cert env self w = (Inr (), self', w')"
    and k: "k < length (nodes self)"
  shows "length (nodes self') = length (nodes self)"
    and "name (nodes self' ! k) = name (nodes self ! k)"
    and "\<exists>c. config (nodes self' ! k) = Some c \<and>
            (if am_lighthouse (nodes self ! k) then static_host_map c = []
             else StaticHostMap_validate (lighthouse_contents self) = Inr (static_host_map c))"
proof -
  let ?ks = "[0 ..< length (nodes self)]"
  from run have r: "create_node_cert_loop env ?ks self w = (Inr (), self', w')"
    by (simp add: create_node_cert_def)
  have "distinct ?ks" "\<forall>j \<in> set ?ks. j < length (nodes self)" by simp_all
  from create_node_cert_loop_result [OF r this]
  have ids: "map node_identity (nodes self') = map node_identity (nodes self)"
    and cfg: "\<forall>j \<in> set ?ks. \<exists>c. config (nodes self' ! j) = Some c \<and>
            (if am_lighthouse (nodes self ! j) then static_host_map c = []
             else StaticHostMap_validate (lighthouse_contents self) = Inr (static_host_map c))"
    by blast+
  from ids show len: "length (nodes self') = length (nodes self)" by (metis length_map)
  have "node_identity (nodes self' ! k) = node_identity (nodes self ! k)"
    using k ids len by (metis nth_map)
  then show "name (nodes self' ! k) = name (nodes self ! k)" by (simp add: node_identity_def)
  from k have "k \<in> set ?ks" by simp
  with cfg show "\<exists>c. config (nodes self' ! k) = Some c \<and>
            (if am_lighthouse (nodes self ! k) then static_host_map c = []
             else StaticHostMap_validate (lighthouse_contents self) = Inr (static_host_map c))"
    by (rule bspec)
qed

text \<open>
  Claim C7, as the code has it. When \<open>create_node_cert\<close> completes, every node has
  a configuration. For a lighthouse its static host map is empty. For any other
  node it is \<open>dict([(n.ip, [n.public]) for n in self.lighthouses])\<close>: every lighthouse
  has an address; the keys are the lighthouses' addresses, each once, in the order
  of their first lighthouse; an address is sent to the list holding the public
  endpoint of the last lighthouse at that address, which has one, and an address of
  no lighthouse is not in the map. When the lighthouses have pairwise different
  addresses this is one entry per lighthouse, in node order, from the lighthouse's
  address to the list holding that lighthouse's public endpoint, and every
  lighthouse has a public endpoint.
\<close>

theorem static_host_map_composed:
  assumes run: "create_node_cert env self w = (Inr (), self', w')"
    and k: "k < length (nodes self)"
  shows "length (nodes self') = length (nodes self) \<and>
         name (nodes self' ! k) = name (nodes self ! k) \<and>
         (\<exists>c. config (nodes self' ! k) = Some c \<and>
            (if am_lighthouse (nodes self ! k) then static_host_map c = []
             else (\<forall>l \<in> set (lighthouses self). ip l \<noteq> None) \<and>
                  map (Some \<circ> fst) (static_host_map c) = rev (remdups (rev (map ip (lighthouses self)))) \<and>
                  (\<forall>a. map_of (static_host_map c) a =
                         (case find (\<lambda>l. ip l = Some a) (rev (lighthouses self)) of
                            None \<Rightarrow> None
                          | Some l \<Rightarrow> Some [the (public l)])) \<and>
                  (\<forall>a l. find (\<lambda>l. ip l = Some a) (rev (lighthouses self)) = Some l \<longrightarrow> public l \<noteq> None) \<and>
                  (distinct (map ip (lighthouses self)) \<longrightarrow>
                     static_host_map c = map (\<lambda>l. (the (ip l), [the (public l)])) (lighthouses self) \<and>
                     (\<forall>l \<in> set (lighthouses self). public l \<noteq> None))))"
proof -
  from create_node_cert_nodes(3) [OF run k]
  obtain c where c: "config (nodes self' ! k) = Some c"
    and shm: "if am_lighthouse (nodes self ! k) then static_host_map c = []
             else StaticHostMap_validate (lighthouse_contents self) = Inr (static_host_map c)"
    by blast
  have "(\<forall>l \<in> set (lighthouses self). ip l \<noteq> None) \<and>
        map (Some \<circ> fst) (static_host_map c) = rev (remdups (rev (map ip (lighthouses self)))) \<and>
        (\<forall>a. map_of (static_host_map c) a =
               (case find (\<lambda>l. ip l = Some a) (rev (lighthouses self)) of
                  None \<Rightarrow> None
                | Some l \<Rightarrow> Some [the (public l)])) \<and>
        (\<forall>a l. find (\<lambda>l. ip l = Some a) (rev (lighthouses self)) = Some l \<longrightarrow> public l \<noteq> None) \<and>
        (distinct (map ip (lighthouses self)) \<longrightarrow>
           static_host_map c = map (\<lambda>l. (the (ip l), [the (public l)])) (lighthouses self) \<and>
           (\<forall>l \<in> set (lighthouses self). public l \<noteq> None))"
    if "\<not> am_lighthouse (nodes self ! k)"
  proof -
    from shm that have v: "StaticHostMap_validate (lighthouse_contents self) = Inr (static_host_map c)"
      by simp
    show ?thesis
      using lighthouse_contents_validated(1) [OF v] lighthouse_contents_validated(2) [OF v]
        lighthouse_contents_validated(3) [OF v] lighthouse_contents_validated(4) [OF v]
        lighthouse_contents_validated(5) [OF v]
      by blast
  qed
  with shm c create_node_cert_nodes(1) [OF run k] create_node_cert_nodes(2) [OF run k]
  show ?thesis by auto
qed

lemma built_nodes:
  "nodes example_network_built =
     [(NebulaNode_default ''A'')\<lparr>ip := Some 174351365\<rparr>,
      (NebulaNode_default ''B'')\<lparr>ip := Some 174351366, am_lighthouse := True,
         public := Some \<lparr>rip_ip = 3405803777, rip_port = 4242\<rparr>\<rparr>,
      (NebulaNode_default ''C'')\<lparr>ip := Some 174351361\<rparr>]"
  by (simp add: example_network_built_def)

lemma built_block: "network example_network_built = Inr (174351360, 24)"
  by (simp add: network_def example_network_built_def example_network_def)

lemma built_dir: "dir (example_env p) example_network_built = ''/w/TestCA''"
  by (simp add: dir_def example_env_def example_network_built_def)

lemma built_ca_outputs:
  "ca_outputs (example_env p) example_network_built = output_paths ''/w/TestCA/TestCA_10.100.100.0_24''"
  by (simp add: ca_outputs_def ca_cert_prefix_def built_dir)
     (simp add: example_network_built_def example_network_def str_ip_def str_nat.simps digit_char_def)

lemma built_node_outputs:
  "node_outputs (example_env p) example_network_built (ByNode n) = output_paths (''/w/TestCA/'' @ name n)"
  by (simp add: node_outputs_def node_cert_prefix_def built_dir)

lemma built_lighthouses:
  "lighthouses example_network_built =
     [(NebulaNode_default ''B'')\<lparr>ip := Some 174351366, am_lighthouse := True,
         public := Some \<lparr>rip_ip = 3405803777, rip_port = 4242\<rparr>\<rparr>]"
  by (simp add: lighthouses_def built_nodes NebulaNode_default_def)

lemma built_validate:
  "StaticHostMap_validate (lighthouse_contents example_network_built) =
     Inr [(174351366, [\<lparr>rip_ip = 3405803777, rip_port = 4242\<rparr>])]"
  by (simp add: lighthouse_contents_def built_lighthouses dict_of_def)

text \<open>
  The end-to-end example: nodes A and C get the single entry from 10.100.100.6 to
  the list holding 203.0.113.1:4242, lighthouse B gets the empty map.
\<close>

theorem static_host_map_composed_witness:
  "distinct (map ip (lighthouses example_network_built)) \<and>
   (\<exists>self'. create_node_cert (example_env writing_process) example_network_built example_world =
               (Inr (), self', example_world) \<and>
            map name (nodes self') = [''A'', ''B'', ''C''] \<and>
            map (map_option static_host_map \<circ> config) (nodes self') =
              [Some [(174351366, [\<lparr>rip_ip = 3405803777, rip_port = 4242\<rparr>])],
               Some [],
               Some [(174351366, [\<lparr>rip_ip = 3405803777, rip_port = 4242\<rparr>])]])"
proof -
  let ?env = "example_env writing_process"
  let ?net = example_network_built
  let ?w = example_world
  have d: "distinct (map ip (lighthouses ?net))" by (simp add: built_lighthouses)
  have dr: "dir ?env ?net \<in> paths ?w"
    by (simp add: built_dir example_world_def world_of_def)
  have ca: "artifact_state (ca_outputs ?env ?net) ?w = Complete"
    by (simp add: built_ca_outputs example_world_def state_evals output_paths_eq)
  have nd: "\<forall>k \<in> set [0 ..< length (nodes ?net)]. k < length (nodes ?net) \<and>
           artifact_state (node_outputs ?env ?net (ByNode (nodes ?net ! k))) ?w = Complete"
  proof
    fix k assume "k \<in> set [0 ..< length (nodes ?net)]"
    then have "k = 0 \<or> k = 1 \<or> k = 2" by (auto simp: built_nodes)
    then show "k < length (nodes ?net) \<and>
           artifact_state (node_outputs ?env ?net (ByNode (nodes ?net ! k))) ?w = Complete"
      by (auto simp: built_nodes built_node_outputs example_world_def state_evals output_paths_eq
          NebulaNode_default_def)
  qed
  from create_node_cert_loop_Complete [OF built_block dr ca nd built_validate]
  obtain self' where run: "create_node_cert ?env ?net ?w = (Inr (), self', ?w)"
    by (auto simp: create_node_cert_def)
  have len: "length (nodes ?net) = 3" by (simp add: built_nodes)
  note t = static_host_map_composed [OF run]
  have t0: "0 < length (nodes ?net)" and t1: "1 < length (nodes ?net)" and t2: "2 < length (nodes ?net)"
    by (simp_all add: len)
  from t [OF t0] have l: "length (nodes self') = 3" by (simp add: len)
  then obtain x y z where xyz: "nodes self' = [x, y, z]"
    by (auto simp: length_Suc_conv numeral_3_eq_3)
  from t [OF t0] d xyz have x: "name x = ''A''"
      "map_option static_host_map (config x) =
         Some [(174351366, [\<lparr>rip_ip = 3405803777, rip_port = 4242\<rparr>])]"
    by (auto simp: built_nodes built_lighthouses NebulaNode_default_def)
  from t [OF t1] xyz have y: "name y = ''B''" "map_option static_host_map (config y) = Some []"
    by (auto simp: built_nodes built_lighthouses NebulaNode_default_def)
  from t [OF t2] d xyz have z: "name z = ''C''"
      "map_option static_host_map (config z) =
         Some [(174351366, [\<lparr>rip_ip = 3405803777, rip_port = 4242\<rparr>])]"
    by (auto simp: built_nodes built_lighthouses NebulaNode_default_def)
  from run xyz x y z d show ?thesis by simp
qed

lemma twin_nodes:
  "nodes twin_network =
     [(NebulaNode_default ''L1'')\<lparr>ip := Some 167772161, am_lighthouse := True,
         public := Some \<lparr>rip_ip = 3405803777, rip_port = 4242\<rparr>\<rparr>,
      (NebulaNode_default ''L2'')\<lparr>ip := Some 167772161, am_lighthouse := True,
         public := Some \<lparr>rip_ip = 3405803778, rip_port = 4242\<rparr>\<rparr>,
      (NebulaNode_default ''N'')\<lparr>ip := Some 167772162\<rparr>]"
  by (simp add: twin_network_def)

lemma twin_block: "network twin_network = Inr (167772160, 30)"
  by (simp add: network_def twin_network_def)

lemma twin_pool: "candidate_hosts twin_network (167772160, 30) = []"
  by (simp add: candidate_hosts_def remove_explicit_def hosts_def twin_network_def
      NebulaNode_default_def upt_conv_Cons)

lemma twin_kept: "model_post_init twin_network = Inr twin_network"
  by (simp add: model_post_init_eq [OF twin_block] twin_pool)
     (simp add: twin_network_def NebulaNode_default_def)

lemma twin_dir: "dir (example_env p) twin_network = ''/w/CA''"
  by (simp add: dir_def example_env_def twin_network_def)

lemma twin_ca_outputs: "ca_outputs (example_env p) twin_network = ca_files"
  by (simp add: ca_outputs_def ca_cert_prefix_def twin_dir output_paths_eq ca_files_def)
     (simp add: twin_network_def str_ip_def str_nat.simps digit_char_def)

lemma twin_node_outputs:
  "node_outputs (example_env p) twin_network (ByNode n) = output_paths (''/w/CA/'' @ name n)"
  by (simp add: node_outputs_def node_cert_prefix_def twin_dir)

lemma twin_lighthouses:
  "lighthouses twin_network =
     [(NebulaNode_default ''L1'')\<lparr>ip := Some 167772161, am_lighthouse := True,
         public := Some \<lparr>rip_ip = 3405803777, rip_port = 4242\<rparr>\<rparr>,
      (NebulaNode_default ''L2'')\<lparr>ip := Some 167772161, am_lighthouse := True,
         public := Some \<lparr>rip_ip = 3405803778, rip_port = 4242\<rparr>\<rparr>]"
  by (simp add: lighthouses_def twin_nodes NebulaNode_default_def)

lemma twin_validate:
  "StaticHostMap_validate (lighthouse_contents twin_network) =
     Inr [(167772161, [\<lparr>rip_ip = 3405803778, rip_port = 4242\<rparr>])]"
  by (simp add: lighthouse_contents_def twin_lighthouses dict_of_def NebulaNode_default_def)

text \<open>
  Two lighthouses at one address. The network is constructed as given, and
  \<open>create_node_cert\<close> completes; node N's static host map has the single entry from
  10.0.0.1 to the list holding 203.0.113.2:4242, the endpoint of lighthouse L2: the
  declared endpoint 203.0.113.1:4242 of lighthouse L1 is not in the map.
\<close>

theorem static_host_map_shared_address_counterexample:
  "model_post_init twin_network = Inr twin_network \<and>
   map (\<lambda>l. (name l, ip l, public l)) (lighthouses twin_network) =
     [(''L1'', Some 167772161, Some \<lparr>rip_ip = 3405803777, rip_port = 4242\<rparr>),
      (''L2'', Some 167772161, Some \<lparr>rip_ip = 3405803778, rip_port = 4242\<rparr>)] \<and>
   (\<exists>self'. create_node_cert (example_env writing_process) twin_network twin_world =
               (Inr (), self', twin_world) \<and>
            map name (nodes self') = [''L1'', ''L2'', ''N''] \<and>
            map (map_option static_host_map \<circ> config) (nodes self') =
              [Some [], Some [],
               Some [(167772161, [\<lparr>rip_ip = 3405803778, rip_port = 4242\<rparr>])]])"
proof -
  let ?env = "example_env writing_process"
  let ?net = twin_network
  let ?w = twin_world
  have lh: "map (\<lambda>l. (name l, ip l, public l)) (lighthouses ?net) =
     [(''L1'', Some 167772161, Some \<lparr>rip_ip = 3405803777, rip_port = 4242\<rparr>),
      (''L2'', Some 167772161, Some \<lparr>rip_ip = 3405803778, rip_port = 4242\<rparr>)]"
    by (simp add: twin_lighthouses NebulaNode_default_def)
  have dr: "dir ?env ?net \<in> paths ?w"
    by (simp add: twin_dir twin_world_def world_of_def)
  have ca: "artifact_state (ca_outputs ?env ?net) ?w = Complete"
    by (simp add: twin_ca_outputs twin_world_def state_evals ca_files_def)
  have nd: "\<forall>k \<in> set [0 ..< length (nodes ?net)]. k < length (nodes ?net) \<and>
           artifact_state (node_outputs ?env ?net (ByNode (nodes ?net ! k))) ?w = Complete"
  proof
    fix k assume "k \<in> set [0 ..< length (nodes ?net)]"
    then have "k = 0 \<or> k = 1 \<or> k = 2" by (auto simp: twin_nodes)
    then show "k < length (nodes ?net) \<and>
           artifact_state (node_outputs ?env ?net (ByNode (nodes ?net ! k))) ?w = Complete"
      by (auto simp: twin_nodes twin_node_outputs twin_world_def state_evals output_paths_eq
          NebulaNode_default_def)
  qed
  from create_node_cert_loop_Complete [OF twin_block dr ca nd twin_validate]
  obtain self' where run: "create_node_cert ?env ?net ?w = (Inr (), self', ?w)"
    by (auto simp: create_node_cert_def)
  have len: "length (nodes ?net) = 3" by (simp add: twin_nodes)
  have t0: "0 < length (nodes ?net)" and t1: "1 < length (nodes ?net)" and t2: "2 < length (nodes ?net)"
    by (simp_all add: len)
  from create_node_cert_nodes(1) [OF run t0] have l: "length (nodes self') = 3" by (simp add: len)
  then obtain x y z where xyz: "nodes self' = [x, y, z]"
    by (auto simp: length_Suc_conv numeral_3_eq_3)
  from create_node_cert_nodes(2) [OF run t0] create_node_cert_nodes(3) [OF run t0] xyz
  have x: "name x = ''L1''" "map_option static_host_map (config x) = Some []"
    by (auto simp: twin_nodes NebulaNode_default_def)
  from create_node_cert_nodes(2) [OF run t1] create_node_cert_nodes(3) [OF run t1] xyz
  have y: "name y = ''L2''" "map_option static_host_map (config y) = Some []"
    by (auto simp: twin_nodes NebulaNode_default_def)
  from create_node_cert_nodes(2) [OF run t2] create_node_cert_nodes(3) [OF run t2] xyz
  have z: "name z = ''N''"
      "map_option static_host_map (config z) =
         Some [(167772161, [\<lparr>rip_ip = 3405803778, rip_port = 4242\<rparr>])]"
    by (auto simp: twin_nodes twin_validate NebulaNode_default_def)
  from run xyz x y z have "\<exists>self'. create_node_cert ?env ?net ?w = (Inr (), self', ?w) \<and>
            map name (nodes self') = [''L1'', ''L2'', ''N''] \<and>
            map (map_option static_host_map \<circ> config) (nodes self') =
              [Some [], Some [],
               Some [(167772161, [\<lparr>rip_ip = 3405803778, rip_port = 4242\<rparr>])]]"
    by simp
  with twin_kept lh show ?thesis by blast
qed

end
